theory Spec2Isabelle
  imports Complex_Main "HOL-Library.AList" "HOL-Library.Multiset"
begin


section \<open>The GGUF benchmark harness (benchmarks/gguf/gguf\_compare.py)\<close>

text \<open>
  A shallow embedding of the orchestration-and-aggregation engine of
  \<^verbatim>\<open>gguf_compare.py\<close>. Python exceptions are values of \<open>py_error\<close>, and
  a function that may raise returns \<open>py_error + 'a\<close>. Python floats are modelled
  as the real numbers: rounding, overflow and NaN are outside the model, so every
  numeric statement below is a statement about exact arithmetic.
\<close>

datatype py_error =
    ValueError string
  | KeyError string
  | IndexError
  | TypeError
  | RegexError
  | ZeroDivisionError
  | TimeoutExpired
  | NotModelled

subsection \<open>Python built-ins used by the statistics\<close>

text \<open>\<^verbatim>\<open>min(values)\<close> and \<open>max(values)\<close>: a left-to-right scan; ValueError on
  an empty sequence.\<close>

fun py_min :: "real list \<Rightarrow> py_error + real" where
  "py_min [] = Inl (ValueError ''min() arg is an empty sequence'')"
| "py_min (x # xs) = Inr (fold min xs x)"

fun py_max :: "real list \<Rightarrow> py_error + real" where
  "py_max [] = Inl (ValueError ''max() arg is an empty sequence'')"
| "py_max (x # xs) = Inr (fold max xs x)"

text \<open>\<^verbatim>\<open>xs[i]\<close> for an integer index: negative indices count from the end,
  an index out of range raises IndexError.\<close>

definition py_get :: "'a list \<Rightarrow> int \<Rightarrow> py_error + 'a" where
  "py_get xs i =
     (if 0 \<le> i \<and> i < int (length xs) then Inr (xs ! nat i)
      else if i < 0 \<and> - int (length xs) \<le> i then Inr (xs ! nat (int (length xs) + i))
      else Inl IndexError)"

text \<open>\<^verbatim>\<open>int(k)\<close> on a float truncates toward zero.\<close>

definition py_int :: "real \<Rightarrow> int" where
  "py_int k = (if 0 \<le> k then \<lfloor>k\<rfloor> else \<lceil>k\<rceil>)"

subsection \<open>percentile (lines 107-121)\<close>

definition percentile :: "real list \<Rightarrow> real \<Rightarrow> py_error + real" where
  "percentile values p =
     (if values = [] then Inl (ValueError ''percentile() requires at least one value'')
      else if p \<le> 0 then py_min values
      else if p \<ge> 100 then py_max values
      else
        let sorted_values = sort values;
            k = real (length sorted_values - 1) * (p / 100);
            lower = py_int k;
            upper = min (lower + 1) (int (length sorted_values) - 1)
        in if lower = upper then py_get sorted_values lower
           else
             let fraction = k - real_of_int lower
             in (case py_get sorted_values lower of
                   Inl e \<Rightarrow> Inl e
                 | Inr lo \<Rightarrow>
                     (case py_get sorted_values upper of
                        Inl e \<Rightarrow> Inl e
                      | Inr hi \<Rightarrow> Inr (lo * (1 - fraction) + hi * fraction))))"

subsection \<open>The statistics module of the standard library\<close>

text \<open>\<^verbatim>\<open>statistics.mean\<close>, \<open>statistics.median\<close> and \<open>statistics.pstdev\<close>
  are not code of the repository; they are modelled from their documentation: the
  arithmetic mean, the middle element of the sorted data (the mean of the two middle
  elements for an even count), and the square root of the population variance. Each
  raises StatisticsError (a ValueError) on empty data.\<close>

definition stat_mean :: "real list \<Rightarrow> py_error + real" where
  "stat_mean data =
     (if data = [] then Inl (ValueError ''mean requires at least one data point'')
      else Inr (sum_list data / real (length data)))"

definition stat_median :: "real list \<Rightarrow> py_error + real" where
  "stat_median data =
     (let s = sort data; n = length s
      in if n = 0 then Inl (ValueError ''no median for empty data'')
         else if n mod 2 = 1 then Inr (s ! (n div 2))
         else Inr ((s ! (n div 2 - 1) + s ! (n div 2)) / 2))"

definition stat_pstdev :: "real list \<Rightarrow> py_error + real" where
  "stat_pstdev data =
     (if data = [] then Inl (ValueError ''pvariance requires at least one data point'')
      else
        let mu = sum_list data / real (length data)
        in Inr (sqrt (sum_list (map (\<lambda>x. (x - mu)\<^sup>2) data) / real (length data))))"

subsection \<open>summarize (lines 124-135)\<close>

text \<open>The summary dictionary; the empty dictionary \<^verbatim>\<open>{}\<close> is \<open>None\<close>.\<close>

record stats =
  st_mean :: real
  st_median :: real
  st_min :: real
  st_max :: real
  st_p95 :: real
  st_stdev :: real

definition summarize :: "real list \<Rightarrow> py_error + stats option" where
  "summarize values =
     (if values = [] then Inr None
      else
        let data = values
        in (case stat_mean data of Inl e \<Rightarrow> Inl e | Inr mean_v \<Rightarrow>
           (case stat_median data of Inl e \<Rightarrow> Inl e | Inr median_v \<Rightarrow>
           (case py_min data of Inl e \<Rightarrow> Inl e | Inr min_v \<Rightarrow>
           (case py_max data of Inl e \<Rightarrow> Inl e | Inr max_v \<Rightarrow>
           (case percentile data 95 of Inl e \<Rightarrow> Inl e | Inr p95_v \<Rightarrow>
           (case (if length data > 1 then stat_pstdev data else Inr 0) of
              Inl e \<Rightarrow> Inl e
            | Inr stdev_v \<Rightarrow>
                Inr (Some \<lparr>st_mean = mean_v, st_median = median_v, st_min = min_v,
                           st_max = max_v, st_p95 = p95_v, st_stdev = stdev_v\<rparr>))))))))"

section \<open>Strings and templating\<close>

text \<open>Strings are byte strings here; the whitespace and the letters that
  \<^verbatim>\<open>str.strip\<close> and \<^verbatim>\<open>str.lower\<close> act on are the ASCII ones.\<close>

definition is_space :: "char \<Rightarrow> bool" where
  "is_space c = (c \<in> set [CHR '' '', CHR 0x09, CHR 0x0A, CHR 0x0B, CHR 0x0C, CHR 0x0D,
                             CHR 0x1C, CHR 0x1D, CHR 0x1E, CHR 0x1F])"

definition strip :: "string \<Rightarrow> string" where
  "strip s = rev (dropWhile is_space (rev (dropWhile is_space s)))"

definition lower_char :: "char \<Rightarrow> char" where
  "lower_char c =
     (let n = (of_char c :: nat) in if 65 \<le> n \<and> n \<le> 90 then char_of (n + 32) else c)"

definition str_lower :: "string \<Rightarrow> string" where
  "str_lower s = map lower_char s"

text \<open>\<^verbatim>\<open>token in text\<close>: the substring test.\<close>

fun str_contains :: "string \<Rightarrow> string \<Rightarrow> bool" where
  "str_contains tok [] = (tok = [])"
| "str_contains tok (c # cs) = (take (length tok) (c # cs) = tok \<or> str_contains tok cs)"

text \<open>\<^verbatim>\<open>raw.split(",")\<close>.\<close>

fun split_on :: "char \<Rightarrow> string \<Rightarrow> string list" where
  "split_on sep [] = [[]]"
| "split_on sep (c # cs) =
     (if c = sep then [] # split_on sep cs
      else (case split_on sep cs of
              [] \<Rightarrow> [[c]]
            | h # t \<Rightarrow> (c # h) # t))"

text \<open>\<^verbatim>\<open>str(n)\<close> for an integer.\<close>

definition digit_char :: "nat \<Rightarrow> char" where
  "digit_char d = ''0123456789'' ! d"

fun str_of_nat :: "nat \<Rightarrow> string" where
  "str_of_nat n =
     (if n < 10 then [digit_char n] else str_of_nat (n div 10) @ [digit_char (n mod 10)])"

declare str_of_nat.simps [simp del]

definition str_of_int :: "int \<Rightarrow> string" where
  "str_of_int i = (if i < 0 then CHR ''-'' # str_of_nat (nat (- i)) else str_of_nat (nat i))"

subsection \<open>str.format with keyword arguments\<close>

text \<open>
  \<^verbatim>\<open>template.format(**variables)\<close> is the standard library's; it is modelled for
  the replacement fields the harness's templates use. The template is scanned left
  to right: \<^verbatim>\<open>{{\<close> and \<^verbatim>\<open>}}\<close> are literal braces, \<^verbatim>\<open>{field}\<close> is replaced. The
  argument name of a field is its text up to the first of \<^verbatim>\<open>. [ ! :\<close>; an empty or
  numeric name is a positional index (IndexError, there are no positional
  arguments), a name that is no key raises KeyError with the name. A field that has
  more than a plain name (attribute, index, conversion or format specification) and
  whose name is a key is outside the model (\<open>Unmodelled\<close>).
\<close>

datatype fmt_error = FmtKeyError string | FmtIndexError | FmtValueError string | Unmodelled

definition field_arg_name :: "string \<Rightarrow> string" where
  "field_arg_name f =
     takeWhile (\<lambda>c. c \<notin> set [CHR ''.'', CHR ''['', CHR ''!'', CHR '':'']) f"

definition is_digit :: "char \<Rightarrow> bool" where
  "is_digit c = (48 \<le> (of_char c :: nat) \<and> (of_char c :: nat) \<le> 57)"

definition lookup_field :: "(string \<times> string) list \<Rightarrow> string \<Rightarrow> fmt_error + string" where
  "lookup_field variables f =
     (let name = field_arg_name f
      in if list_all is_digit name then Inl FmtIndexError
         else (case map_of variables name of
                 None \<Rightarrow> Inl (FmtKeyError name)
               | Some v \<Rightarrow> if name = f then Inr v else Inl Unmodelled))"

fun fmt_scan :: "(string \<times> string) list \<Rightarrow> string option \<Rightarrow> string \<Rightarrow> fmt_error + string" where
  "fmt_scan variables None [] = Inr []"
| "fmt_scan variables None (c # cs) =
     (if c = CHR ''{'' then
        (case cs of
           [] \<Rightarrow> Inl (FmtValueError ''Single '{' encountered in format string'')
         | d # ds \<Rightarrow>
             if d = CHR ''{'' then
               (case fmt_scan variables None ds of Inl e \<Rightarrow> Inl e | Inr r \<Rightarrow> Inr (CHR ''{'' # r))
             else fmt_scan variables (Some []) cs)
      else if c = CHR ''}'' then
        (case cs of
           [] \<Rightarrow> Inl (FmtValueError ''Single '}' encountered in format string'')
         | d # ds \<Rightarrow>
             if d = CHR ''}'' then
               (case fmt_scan variables None ds of Inl e \<Rightarrow> Inl e | Inr r \<Rightarrow> Inr (CHR ''}'' # r))
             else Inl (FmtValueError ''Single '}' encountered in format string''))
      else (case fmt_scan variables None cs of Inl e \<Rightarrow> Inl e | Inr r \<Rightarrow> Inr (c # r)))"
| "fmt_scan variables (Some f) [] = Inl (FmtValueError ''expected '}' before end of string'')"
| "fmt_scan variables (Some f) (c # cs) =
     (if c = CHR ''}'' then
        (case lookup_field variables f of
           Inl e \<Rightarrow> Inl e
         | Inr v \<Rightarrow>
             (case fmt_scan variables None cs of Inl e \<Rightarrow> Inl e | Inr r \<Rightarrow> Inr (v @ r)))
      else fmt_scan variables (Some (f @ [c])) cs)"

definition str_format :: "string \<Rightarrow> (string \<times> string) list \<Rightarrow> fmt_error + string" where
  "str_format template variables = fmt_scan variables None template"

subsection \<open>format\_command (lines 167-171)\<close>

text \<open>Only KeyError is caught and turned into the ValueError naming the variable and
  the template; every other exception of \<^verbatim>\<open>str.format\<close> propagates.\<close>

definition missing_variable_message :: "string \<Rightarrow> string \<Rightarrow> string" where
  "missing_variable_message v template =
     ''missing template variable '' @ [CHR 0x27] @ v @ [CHR 0x27] @ '' in command: '' @ template"

definition format_command :: "string \<Rightarrow> (string \<times> string) list \<Rightarrow> py_error + string" where
  "format_command template variables =
     (case str_format template variables of
        Inr s \<Rightarrow> Inr s
      | Inl (FmtKeyError v) \<Rightarrow> Inl (ValueError (missing_variable_message v template))
      | Inl FmtIndexError \<Rightarrow> Inl IndexError
      | Inl (FmtValueError m) \<Rightarrow> Inl (ValueError m)
      | Inl Unmodelled \<Rightarrow> Inl NotModelled)"

subsection \<open>Backend name filters (lines 174-182)\<close>

definition parse_backend_filters :: "string \<Rightarrow> string list" where
  "parse_backend_filters raw =
     map (\<lambda>item. str_lower (strip item)) (filter (\<lambda>item. strip item \<noteq> []) (split_on CHR '','' raw))"

definition backend_is_selected :: "string \<Rightarrow> string list \<Rightarrow> bool" where
  "backend_is_selected name filters =
     (if filters = [] then True
      else
        let lower_name = str_lower name
        in list_ex (\<lambda>token. token = lower_name \<or> str_contains token lower_name) filters)"

section \<open>Metric extraction and the run executor\<close>

subsection \<open>The outside world\<close>

text \<open>
  The harness calls three things it does not define: the regular-expression engine
  (\<^verbatim>\<open>re.search\<close>), the float parser (\<^verbatim>\<open>float(str)\<close>) and the operating system
  (\<^verbatim>\<open>subprocess.run\<close>, the environment, path resolution). They are parameters of
  the model, gathered in the record \<open>world\<close>.

  \<^verbatim>\<open>re.search(pattern, text, flags)\<close> raises \<^verbatim>\<open>re.error\<close> on a malformed
  pattern (\<open>Bad_pattern\<close>), returns None (\<open>No_match\<close>) or a match object
  (\<open>Matched groups\<close>); \<open>groups\<close> are the pattern's capture groups 1, 2, ... of the
  first match, \<open>None\<close> for a group that took no part in the match.
\<close>

datatype re_flag = IGNORECASE | MULTILINE

datatype re_result = Bad_pattern | No_match | Matched "string option list"

record spawn =
  sp_command :: string
  sp_cwd :: string
  sp_env :: "(string \<times> string) list"
  sp_timeout :: int

text \<open>A finished child process (exit code, captured streams, elapsed wall-clock
  seconds), or the expiry of the timeout.\<close>

datatype proc_outcome =
    Completed (p_returncode: int) (p_stdout: string) (p_stderr: string) (p_wall: real)
  | Timed_out

text \<open>\<open>w_subprocess_run w sp n\<close> is the outcome of the process spawned with \<open>sp\<close>
  when \<open>n\<close> processes have been spawned before it.\<close>

record world =
  w_subprocess_run :: "spawn \<Rightarrow> nat \<Rightarrow> proc_outcome"
  w_re_search :: "re_flag list \<Rightarrow> string \<Rightarrow> string \<Rightarrow> re_result"
  w_float :: "string \<Rightarrow> real option"
  w_environ :: "(string \<times> string) list"
  w_repo_root :: string
  w_repo_path :: "string \<Rightarrow> string"
  w_to_posix :: "string \<Rightarrow> string"
  w_path_name :: "string \<Rightarrow> string"

subsection \<open>parse\_numeric\_metric (lines 185-193)\<close>

text \<open>\<^verbatim>\<open>match.group(1)\<close> raises IndexError when the pattern has no group;
  \<^verbatim>\<open>float(None)\<close>, for a group that took no part in the match, raises TypeError.
  Only ValueError (a capture that is no number) is caught.\<close>

fun parse_numeric_metric :: "world \<Rightarrow> string \<Rightarrow> string list \<Rightarrow> py_error + real option" where
  "parse_numeric_metric w text [] = Inr None"
| "parse_numeric_metric w text (pattern # regexes) =
     (case w_re_search w [IGNORECASE, MULTILINE] pattern text of
        Bad_pattern \<Rightarrow> Inl RegexError
      | No_match \<Rightarrow> parse_numeric_metric w text regexes
      | Matched groups \<Rightarrow>
          (case groups of
             [] \<Rightarrow> Inl IndexError
           | None # _ \<Rightarrow> Inl TypeError
           | Some capture # _ \<Rightarrow>
               (case w_float w capture of
                  Some v \<Rightarrow> Inr (Some v)
                | None \<Rightarrow> parse_numeric_metric w text regexes)))"

subsection \<open>normalize\_regexes (lines 196-203)\<close>

text \<open>The raw JSON value of a regex entry: absent or null, a string, a list (its
  items read through \<^verbatim>\<open>str\<close>), or anything else.\<close>

datatype regex_raw = RNone | RStr string | RList "string list" | ROther

fun normalize_regexes :: "regex_raw \<Rightarrow> py_error + string list" where
  "normalize_regexes RNone = Inr []"
| "normalize_regexes (RStr s) = Inr [s]"
| "normalize_regexes (RList xs) = Inr xs"
| "normalize_regexes ROther = Inl (ValueError ''metric regex must be string or list of strings'')"

text \<open>The list of patterns a raw value that is null, a string or a list stands for.\<close>

fun regexes_of :: "regex_raw \<Rightarrow> string list" where
  "regexes_of RNone = []"
| "regexes_of (RStr s) = [s]"
| "regexes_of (RList xs) = xs"
| "regexes_of ROther = []"

subsection \<open>run\_once (lines 206-250)\<close>

record run_result =
  rr_backend :: string
  rr_command :: string
  rr_exit_code :: int
  rr_wall_seconds :: real
  rr_primary_metric :: "real option"
  rr_aux_metrics :: "(string \<times> real) list"
  rr_stdout :: string
  rr_stderr :: string

record run_ctx =
  x_backend_name :: string
  x_command :: string
  x_cwd :: string
  x_timeout_s :: int
  x_env :: "(string \<times> string) list"
  x_metric_regexes :: "string list"
  x_aux_regexes :: "(string \<times> string list) list"
  x_metric_fallback_to_wall_time :: bool

text \<open>The loop over \<^verbatim>\<open>aux_regexes.items()\<close>.\<close>

fun extract_aux ::
  "world \<Rightarrow> string \<Rightarrow> (string \<times> string list) list \<Rightarrow> (string \<times> real) list \<Rightarrow>
   py_error + (string \<times> real) list" where
  "extract_aux w text [] aux_metrics = Inr aux_metrics"
| "extract_aux w text ((key, regexes) # rest) aux_metrics =
     (case parse_numeric_metric w text regexes of
        Inl e \<Rightarrow> Inl e
      | Inr None \<Rightarrow> extract_aux w text rest aux_metrics
      | Inr (Some v) \<Rightarrow> extract_aux w text rest (AList.update key v aux_metrics))"

definition spawn_of :: "run_ctx \<Rightarrow> spawn" where
  "spawn_of ctx = \<lparr>sp_command = x_command ctx, sp_cwd = x_cwd ctx, sp_env = x_env ctx,
                   sp_timeout = x_timeout_s ctx\<rparr>"

text \<open>\<open>run_once w ctx n\<close>: the call when \<open>n\<close> processes have been spawned before. The
  process is spawned in every case; what is returned is the record, or the exception
  (TimeoutExpired, or one raised by the extraction).\<close>

definition run_once :: "world \<Rightarrow> run_ctx \<Rightarrow> nat \<Rightarrow> py_error + run_result" where
  "run_once w ctx n =
     (case w_subprocess_run w (spawn_of ctx) n of
        Timed_out \<Rightarrow> Inl TimeoutExpired
      | Completed returncode out err wall_s \<Rightarrow>
          let combined = out @ [CHR 0x0A] @ err
          in (case parse_numeric_metric w combined (x_metric_regexes ctx) of
                Inl e \<Rightarrow> Inl e
              | Inr parsed \<Rightarrow>
                  let primary_metric =
                        (if parsed = None \<and> x_metric_fallback_to_wall_time ctx
                         then Some wall_s else parsed)
                  in (case extract_aux w combined (x_aux_regexes ctx) [] of
                        Inl e \<Rightarrow> Inl e
                      | Inr aux_metrics \<Rightarrow>
                          Inr \<lparr>rr_backend = x_backend_name ctx, rr_command = x_command ctx,
                               rr_exit_code = returncode, rr_wall_seconds = wall_s,
                               rr_primary_metric = primary_metric,
                               rr_aux_metrics = aux_metrics,
                               rr_stdout = out, rr_stderr = err\<rparr>)))"

text \<open>
  What the extraction contract says of one pattern, in the contract's words: the
  number a pattern yields is the float parsed from the first capture group of its
  first match; a pattern that does not match, or whose capture is no number, yields
  none. A pattern is \<open>well_grouped\<close> on a text when it compiles and, if it matches,
  its first group exists and took part in the match.
\<close>

definition numeric_capture :: "world \<Rightarrow> string \<Rightarrow> string \<Rightarrow> real option" where
  "numeric_capture w text pattern =
     (case w_re_search w [IGNORECASE, MULTILINE] pattern text of
        Matched (Some capture # _) \<Rightarrow> w_float w capture
      | _ \<Rightarrow> None)"

definition well_grouped :: "world \<Rightarrow> string \<Rightarrow> string \<Rightarrow> bool" where
  "well_grouped w text pattern =
     (case w_re_search w [IGNORECASE, MULTILINE] pattern text of
        Bad_pattern \<Rightarrow> False
      | No_match \<Rightarrow> True
      | Matched groups \<Rightarrow> (case groups of Some capture # _ \<Rightarrow> True | _ \<Rightarrow> False))"

section \<open>Configuration\<close>

text \<open>
  The JSON configuration, read into typed records. A field the source reads through
  \<^verbatim>\<open>str(...)\<close>, \<^verbatim>\<open>int(...)\<close> or \<^verbatim>\<open>bool(...)\<close> with a default holds the value so
  read; a dictionary is an association list in insertion order.
\<close>

record backend =
  b_enabled :: bool
  b_name :: string
  b_command :: string
  b_cwd :: string
  b_env :: "(string \<times> string) list"
  b_metric_regexes :: regex_raw
  b_parse :: "(string \<times> regex_raw) list"
  b_aux_metrics :: "(string \<times> regex_raw) list"

record config =
  c_benchmark_name :: string
  c_hardware :: string
  c_model_path :: string
  c_model_name :: "string option"
  c_prompt :: string
  c_max_tokens :: int
  c_runs :: int
  c_warmup_runs :: int
  c_timeout_seconds :: int
  c_strict :: bool
  c_metric_key :: string
  c_metric_unit :: string
  c_metric_direction :: string
  c_metric_fallback_to_wall_time :: "bool option"
  c_variables :: "(string \<times> string) list"
  c_backends :: "backend list"

text \<open>The command line: \<^verbatim>\<open>--dry-run\<close>, \<^verbatim>\<open>--runs\<close>, \<^verbatim>\<open>--warmup-runs\<close> (both
  default to -1) and \<^verbatim>\<open>--backend\<close>. The output-path overrides only name the
  files written and are left out.\<close>

record args =
  a_dry_run :: bool
  a_runs :: int
  a_warmup_runs :: int
  a_backend :: string

subsection \<open>MetricConfig.from\_config (lines 35-49)\<close>

record metric_config =
  mc_key :: string
  mc_unit :: string
  mc_direction :: string

definition bad_direction_message :: string where
  "bad_direction_message = ''metric.direction must be 'higher' or 'lower'' @ [CHR 0x27]"

definition from_config :: "config \<Rightarrow> py_error + metric_config" where
  "from_config raw =
     (let direction = str_lower (c_metric_direction raw)
      in if direction \<noteq> ''higher'' \<and> direction \<noteq> ''lower''
         then Inl (ValueError bad_direction_message)
         else Inr \<lparr>mc_key = c_metric_key raw, mc_unit = c_metric_unit raw,
                   mc_direction = direction\<rparr>)"

subsection \<open>build\_template\_variables (lines 142-164)\<close>

definition build_template_variables :: "world \<Rightarrow> config \<Rightarrow> (string \<times> string) list" where
  "build_template_variables w cfg =
     (let variables = fold (\<lambda>(k, v) vs. AList.update k v vs) (c_variables cfg) [];
          model_path = (if c_model_path cfg \<noteq> []
                        then w_to_posix w (w_repo_path w (c_model_path cfg)) else []);
          model_name = (case c_model_name cfg of
                          Some n \<Rightarrow> n
                        | None \<Rightarrow> if model_path \<noteq> [] then w_path_name w model_path else [])
      in fold (\<lambda>(k, v) vs. AList.update k v vs)
           [(''repo_root'', w_repo_root w),
            (''model_path'', model_path),
            (''model_name'', model_name),
            (''prompt'', c_prompt cfg),
            (''max_tokens'', str_of_int (c_max_tokens cfg))]
           variables)"

section \<open>The orchestrator (main, lines 463-744)\<close>

subsection \<open>Results\<close>

text \<open>A run record is one of the two dictionaries appended to
  \<^verbatim>\<open>measured_runs\<close>: the timeout record, or the record of a finished run.\<close>

datatype run_record =
    Run_timeout (t_run_index: nat) (t_error: string)
  | Run_done (d_run_index: nat) (d_ok: bool) (d_exit_code: int) (d_wall_seconds: real)
      (d_primary_metric: "real option") (d_aux_metrics: "(string \<times> real) list")
      (d_stdout_tail: string) (d_stderr_tail: string)

record summary =
  sm_primary_metric :: "stats option"
  sm_wall_seconds :: "stats option"
  sm_success_runs :: nat
  sm_failed_runs :: nat
  sm_aux_metrics :: "(string \<times> stats option) list"
  sm_median_vs_best :: "real option"

record backend_result =
  r_name :: string
  r_status :: string
  r_command :: string
  r_cwd :: string
  r_runs :: "run_record list"
  r_summary :: summary

subsection \<open>The state of a run\<close>

text \<open>
  The variables of \<^verbatim>\<open>main\<close> that change while backends run, the log of the
  processes spawned so far, and the results written to the report files (\<open>None\<close>
  until they are written).
\<close>

record run_state =
  spawned :: "spawn list"
  result_rows :: "backend_result list"
  measured_runs :: "run_record list"
  success_metrics :: "real list"
  success_wall :: "real list"
  aux_values :: "(string \<times> real list) list"
  failed_runs :: nat
  written :: "backend_result list option"

definition initial_state :: run_state where
  "initial_state = \<lparr>spawned = [], result_rows = [], measured_runs = [], success_metrics = [],
                     success_wall = [], aux_values = [], failed_runs = 0, written = None\<rparr>"

text \<open>How a piece of \<^verbatim>\<open>main\<close> ends: it falls through, \<^verbatim>\<open>main\<close> returns an exit
  code, or an exception leaves \<^verbatim>\<open>main\<close>.\<close>

datatype flow = Normal | Returned int | Raised py_error

text \<open>The values fixed before the loop over the backends.\<close>

record settings =
  s_metric :: metric_config
  s_runs :: int
  s_warmup_runs :: int
  s_timeout_s :: int
  s_strict :: bool
  s_fallback :: bool
  s_variables :: "(string \<times> string) list"
  s_backend_commands :: "(string \<times> string) list"

subsection \<open>Resolving the commands (lines 491-503)\<close>

definition missing_command_message :: "string \<Rightarrow> string" where
  "missing_command_message name =
     ''Backend '' @ [CHR 0x27] @ name @ [CHR 0x27] @ '' is missing '' @ [CHR 0x27] @ ''command'' @ [CHR 0x27]"

definition missing_name_message :: string where
  "missing_name_message = ''Each backend must have a non-empty '' @ [CHR 0x27] @ ''name'' @ [CHR 0x27]"

fun resolve_commands ::
  "string list \<Rightarrow> (string \<times> string) list \<Rightarrow> backend list \<Rightarrow> (string \<times> string) list \<Rightarrow>
   py_error + (string \<times> string) list" where
  "resolve_commands filters variables [] backend_commands = Inr backend_commands"
| "resolve_commands filters variables (b # bs) backend_commands =
     (if \<not> b_enabled b then resolve_commands filters variables bs backend_commands
      else
        let name = strip (b_name b)
        in if name = [] then Inl (ValueError missing_name_message)
           else if \<not> backend_is_selected name filters
           then resolve_commands filters variables bs backend_commands
           else
             let command_tmpl = strip (b_command b)
             in if command_tmpl = [] then Inl (ValueError (missing_command_message name))
                else (case format_command command_tmpl variables of
                        Inl e \<Rightarrow> Inl e
                      | Inr command \<Rightarrow>
                          resolve_commands filters variables bs
                            (AList.update name command backend_commands)))"

subsection \<open>Preparing one backend (lines 529-553)\<close>

fun build_env ::
  "(string \<times> string) list \<Rightarrow> (string \<times> string) list \<Rightarrow> (string \<times> string) list \<Rightarrow>
   py_error + (string \<times> string) list" where
  "build_env variables [] env = Inr env"
| "build_env variables ((k, v) # rest) env =
     (case format_command v variables of
        Inl e \<Rightarrow> Inl e
      | Inr s \<Rightarrow> build_env variables rest (AList.update k s env))"

definition parse_get :: "(string \<times> regex_raw) list \<Rightarrow> string \<Rightarrow> regex_raw" where
  "parse_get parse_section key = (case map_of parse_section key of None \<Rightarrow> RNone | Some v \<Rightarrow> v)"

definition no_regexes_message :: "string \<Rightarrow> string \<Rightarrow> string" where
  "no_regexes_message name key =
     ''Backend '' @ [CHR 0x27] @ name @ [CHR 0x27] @ '' has no metric regexes for '' @
     [CHR 0x27] @ key @ [CHR 0x27] @ '' and fallback is disabled.''"

definition select_metric_regexes :: "settings \<Rightarrow> backend \<Rightarrow> py_error + string list" where
  "select_metric_regexes S b =
     (case normalize_regexes (b_metric_regexes b) of
        Inl e \<Rightarrow> Inl e
      | Inr explicit \<Rightarrow>
          (case (if explicit = []
                 then normalize_regexes (parse_get (b_parse b) (mc_key (s_metric S)))
                 else Inr explicit) of
             Inl e \<Rightarrow> Inl e
           | Inr metric_regexes \<Rightarrow>
               if metric_regexes = [] \<and> \<not> s_fallback S
               then Inl (ValueError (no_regexes_message (b_name b) (mc_key (s_metric S))))
               else Inr metric_regexes))"

text \<open>Lines 544-553: first every entry of \<^verbatim>\<open>aux_metrics\<close>, then the entries of
  \<^verbatim>\<open>parse\<close> that are not the primary metric's and not yet present.\<close>

fun aux_from_aux_section ::
  "(string \<times> regex_raw) list \<Rightarrow> (string \<times> string list) list \<Rightarrow>
   py_error + (string \<times> string list) list" where
  "aux_from_aux_section [] aux_regexes = Inr aux_regexes"
| "aux_from_aux_section ((key, v) # rest) aux_regexes =
     (case normalize_regexes v of
        Inl e \<Rightarrow> Inl e
      | Inr rs \<Rightarrow> aux_from_aux_section rest (AList.update key rs aux_regexes))"

fun aux_from_parse_section ::
  "string \<Rightarrow> (string \<times> regex_raw) list \<Rightarrow> (string \<times> string list) list \<Rightarrow>
   py_error + (string \<times> string list) list" where
  "aux_from_parse_section metric_key [] aux_regexes = Inr aux_regexes"
| "aux_from_parse_section metric_key ((key, v) # rest) aux_regexes =
     (if key = metric_key then aux_from_parse_section metric_key rest aux_regexes
      else if map_of aux_regexes key = None then
        (case normalize_regexes v of
           Inl e \<Rightarrow> Inl e
         | Inr rs \<Rightarrow> aux_from_parse_section metric_key rest (AList.update key rs aux_regexes))
      else aux_from_parse_section metric_key rest aux_regexes)"

definition build_aux_regexes ::
  "string \<Rightarrow> (string \<times> regex_raw) list \<Rightarrow> (string \<times> regex_raw) list \<Rightarrow>
   py_error + (string \<times> string list) list" where
  "build_aux_regexes metric_key parse_section aux_section =
     (case aux_from_aux_section aux_section [] of
        Inl e \<Rightarrow> Inl e
      | Inr aux_regexes \<Rightarrow> aux_from_parse_section metric_key parse_section aux_regexes)"

definition prepare_backend :: "world \<Rightarrow> settings \<Rightarrow> backend \<Rightarrow> string \<Rightarrow> py_error + run_ctx" where
  "prepare_backend w S b command =
     (let cwd_path = w_repo_path w (b_cwd b)
      in (case build_env (s_variables S) (b_env b) (w_environ w) of
            Inl e \<Rightarrow> Inl e
          | Inr env \<Rightarrow>
              (case select_metric_regexes S b of
                 Inl e \<Rightarrow> Inl e
               | Inr metric_regexes \<Rightarrow>
                   (case build_aux_regexes (mc_key (s_metric S)) (b_parse b) (b_aux_metrics b) of
                      Inl e \<Rightarrow> Inl e
                    | Inr aux_regexes \<Rightarrow>
                        Inr \<lparr>x_backend_name = b_name b, x_command = command, x_cwd = cwd_path,
                             x_timeout_s = s_timeout_s S, x_env = env,
                             x_metric_regexes = metric_regexes, x_aux_regexes = aux_regexes,
                             x_metric_fallback_to_wall_time = s_fallback S\<rparr>))))"

subsection \<open>The warmup and the measured loops (lines 559-636)\<close>

text \<open>One call of \<^verbatim>\<open>run_once\<close> from \<^verbatim>\<open>main\<close>: the process is logged as
  spawned.\<close>

definition exec_run :: "world \<Rightarrow> run_ctx \<Rightarrow> run_state \<Rightarrow> (py_error + run_result) \<times> run_state" where
  "exec_run w ctx st =
     (run_once w ctx (length (spawned st)), st\<lparr>spawned := spawned st @ [spawn_of ctx]\<rparr>)"

fun warmup_loop :: "world \<Rightarrow> bool \<Rightarrow> run_ctx \<Rightarrow> nat list \<Rightarrow> run_state \<Rightarrow> flow \<times> run_state" where
  "warmup_loop w strict ctx [] st = (Normal, st)"
| "warmup_loop w strict ctx (i # is) st =
     (case exec_run w ctx st of
        (Inr record, st') \<Rightarrow> warmup_loop w strict ctx is st'
      | (Inl e, st') \<Rightarrow>
          if e = TimeoutExpired then
            (if strict then (Raised TimeoutExpired, st')
             else warmup_loop w strict ctx is st')
          else (Raised e, st'))"

definition timeout_record :: "int \<Rightarrow> nat \<Rightarrow> run_record" where
  "timeout_record timeout_s i = Run_timeout i (''timeout after '' @ str_of_int timeout_s @ ''s'')"

definition str_tail :: "string \<Rightarrow> string" where
  "str_tail s = drop (length s - 1200) s"

definition done_record :: "nat \<Rightarrow> bool \<Rightarrow> run_result \<Rightarrow> run_record" where
  "done_record i ok record =
     Run_done i ok (rr_exit_code record) (rr_wall_seconds record) (rr_primary_metric record)
       (rr_aux_metrics record) (str_tail (rr_stdout record)) (str_tail (rr_stderr record))"

text \<open>\<^verbatim>\<open>aux_values.setdefault(key, []).append(val)\<close> for every auxiliary metric of
  the record.\<close>

definition add_aux_values ::
  "(string \<times> real) list \<Rightarrow> (string \<times> real list) list \<Rightarrow> (string \<times> real list) list" where
  "add_aux_values aux av =
     fold (\<lambda>(key, val) acc.
             AList.update key ((case map_of acc key of None \<Rightarrow> [] | Some vs \<Rightarrow> vs) @ [val]) acc)
          aux av"

text \<open>Lines 597-604: the failure is counted and the timeout record appended.\<close>

definition record_timeout :: "run_ctx \<Rightarrow> nat \<Rightarrow> run_state \<Rightarrow> run_state" where
  "record_timeout ctx i st =
     st\<lparr>failed_runs := failed_runs st + 1,
        measured_runs := measured_runs st @ [timeout_record (x_timeout_s ctx) i]\<rparr>"

text \<open>Line 610: a run is a success when it exits with code 0 and has a primary
  metric.\<close>

definition run_ok :: "run_result \<Rightarrow> bool" where
  "run_ok record = (rr_exit_code record = 0 \<and> rr_primary_metric record \<noteq> None)"

text \<open>Lines 611-630: the record of a finished run is appended; a success adds to the
  series, a failure is counted.\<close>

definition record_run :: "nat \<Rightarrow> run_result \<Rightarrow> run_state \<Rightarrow> run_state" where
  "record_run i record st =
     (let ok = run_ok record;
          st1 = st\<lparr>measured_runs := measured_runs st @ [done_record i ok record]\<rparr>
      in (case (if ok then rr_primary_metric record else None) of
            Some v \<Rightarrow>
              st1\<lparr>success_metrics := success_metrics st1 @ [v],
                  success_wall := success_wall st1 @ [rr_wall_seconds record],
                  aux_values := add_aux_values (rr_aux_metrics record) (aux_values st1)\<rparr>
          | None \<Rightarrow> st1\<lparr>failed_runs := failed_runs st1 + 1\<rparr>))"

fun measure_loop :: "world \<Rightarrow> bool \<Rightarrow> run_ctx \<Rightarrow> nat list \<Rightarrow> run_state \<Rightarrow> flow \<times> run_state" where
  "measure_loop w strict ctx [] st = (Normal, st)"
| "measure_loop w strict ctx (i # is) st =
     (case exec_run w ctx st of
        (Inl e, st') \<Rightarrow>
          if e = TimeoutExpired then
            (let st1 = record_timeout ctx i st'
             in if strict then (Returned 2, st1) else measure_loop w strict ctx is st1)
          else (Raised e, st')
      | (Inr record, st') \<Rightarrow>
          (let st1 = record_run i record st'
           in if run_ok record then measure_loop w strict ctx is st1
              else if strict then (Returned 2, st1)
              else measure_loop w strict ctx is st1))"

text \<open>Line 577-581: the accumulators of a backend start empty.\<close>

definition reset_accumulators :: "run_state \<Rightarrow> run_state" where
  "reset_accumulators st =
     st\<lparr>measured_runs := [], success_metrics := [], success_wall := [], aux_values := [],
        failed_runs := 0\<rparr>"

subsection \<open>One backend, and the loop over the backends (lines 521-656)\<close>

fun summarize_all :: "(string \<times> real list) list \<Rightarrow> py_error + (string \<times> stats option) list" where
  "summarize_all [] = Inr []"
| "summarize_all ((k, v) # rest) =
     (case summarize v of
        Inl e \<Rightarrow> Inl e
      | Inr s \<Rightarrow> (case summarize_all rest of Inl e \<Rightarrow> Inl e | Inr ss \<Rightarrow> Inr ((k, s) # ss)))"

definition py_range1 :: "int \<Rightarrow> nat list" where
  "py_range1 n = [1 ..< nat (n + 1)]"

definition summarize_backend :: "world \<Rightarrow> run_ctx \<Rightarrow> run_state \<Rightarrow> flow \<times> run_state" where
  "summarize_backend w ctx st =
     (case summarize (success_metrics st) of
        Inl e \<Rightarrow> (Raised e, st)
      | Inr pm \<Rightarrow>
          (case summarize (success_wall st) of
             Inl e \<Rightarrow> (Raised e, st)
           | Inr ws \<Rightarrow>
               (case summarize_all (aux_values st) of
                  Inl e \<Rightarrow> (Raised e, st)
                | Inr aux \<Rightarrow>
                    let summary = \<lparr>sm_primary_metric = pm, sm_wall_seconds = ws,
                                    sm_success_runs = length (success_metrics st),
                                    sm_failed_runs = failed_runs st,
                                    sm_aux_metrics = aux, sm_median_vs_best = None\<rparr>;
                        status = (if success_metrics st \<noteq> [] then ''ok'' else ''failed'')
                    in (Normal,
                        st\<lparr>result_rows := result_rows st @
                             [\<lparr>r_name = x_backend_name ctx, r_status = status,
                               r_command = x_command ctx, r_cwd = w_to_posix w (x_cwd ctx),
                               r_runs = measured_runs st, r_summary = summary\<rparr>]\<rparr>))))"

definition run_backend :: "world \<Rightarrow> settings \<Rightarrow> backend \<Rightarrow> run_state \<Rightarrow> flow \<times> run_state" where
  "run_backend w S b st =
     (if \<not> b_enabled b then (Normal, st)
      else
        (case map_of (s_backend_commands S) (b_name b) of
           None \<Rightarrow> (Normal, st)
         | Some command \<Rightarrow>
             (case prepare_backend w S b command of
                Inl e \<Rightarrow> (Raised e, st)
              | Inr ctx \<Rightarrow>
                  (case warmup_loop w (s_strict S) ctx (py_range1 (s_warmup_runs S)) st of
                     (Normal, st1) \<Rightarrow>
                       (case measure_loop w (s_strict S) ctx (py_range1 (s_runs S))
                               (reset_accumulators st1) of
                          (Normal, st2) \<Rightarrow> summarize_backend w ctx st2
                        | (Returned c, st2) \<Rightarrow> (Returned c, st2)
                        | (Raised e, st2) \<Rightarrow> (Raised e, st2))
                   | (Returned c, st1) \<Rightarrow> (Returned c, st1)
                   | (Raised e, st1) \<Rightarrow> (Raised e, st1)))))"

fun run_backends :: "world \<Rightarrow> settings \<Rightarrow> backend list \<Rightarrow> run_state \<Rightarrow> flow \<times> run_state" where
  "run_backends w S [] st = (Normal, st)"
| "run_backends w S (b # bs) st =
     (case run_backend w S b st of
        (Normal, st') \<Rightarrow> run_backends w S bs st'
      | (Returned c, st') \<Rightarrow> (Returned c, st')
      | (Raised e, st') \<Rightarrow> (Raised e, st'))"

subsection \<open>Relative-to-best ratios (lines 658-674)\<close>

text \<open>The median of a row that takes part in the ranking: status \<^verbatim>\<open>"ok"\<close> and a
  median in its primary-metric summary.\<close>

definition good_median :: "backend_result \<Rightarrow> real option" where
  "good_median row =
     (if r_status row = ''ok''
      then (case sm_primary_metric (r_summary row) of None \<Rightarrow> None | Some s \<Rightarrow> Some (st_median s))
      else None)"

definition set_median_vs_best :: "real \<Rightarrow> backend_result \<Rightarrow> backend_result" where
  "set_median_vs_best ratio row = row\<lparr>r_summary := (r_summary row)\<lparr>sm_median_vs_best := Some ratio\<rparr>\<rparr>"

text \<open>The rows of \<open>good\<close> are the very objects of \<^verbatim>\<open>result_rows\<close>, so the assignment
  to \<^verbatim>\<open>row["summary"]["median_vs_best"]\<close> changes the rows of the result.\<close>

definition assign_median_vs_best ::
  "string \<Rightarrow> backend_result list \<Rightarrow> py_error + (backend_result list \<times> real option)" where
  "assign_median_vs_best direction rows =
     (let medians = List.map_filter good_median rows
      in if medians = [] then Inr (rows, None)
         else
           (case (if direction = ''higher'' then py_max medians else py_min medians) of
              Inl e \<Rightarrow> Inl e
            | Inr best_median \<Rightarrow>
                if best_median > 0 then
                  Inr (map (\<lambda>row.
                              case good_median row of
                                None \<Rightarrow> row
                              | Some med \<Rightarrow>
                                  if direction = ''higher''
                                  then set_median_vs_best (med / best_median) row
                                  else set_median_vs_best
                                         (if med \<noteq> 0 then best_median / med else 0) row)
                         rows,
                       Some best_median)
                else Inr (rows, Some best_median)))"

subsection \<open>main\<close>

datatype outcome = Exited int | Crashed py_error

text \<open>
  \<open>main w args cfg\<close>: \<open>cfg\<close> is the configuration file's content, \<open>None\<close> when the
  file does not exist. The result is how the process ends and the final state.
  Printing, the timestamp and the names of the three report files are left out; the
  three files are written together, from the same result, which \<open>written\<close> holds.

  \<open>main_setup\<close> is \<^verbatim>\<open>main\<close> up to line 517: it ends the process (a missing file, no
  backends, a configuration error, no backend selected, a dry run) or yields the
  values the loop over the backends uses. No process is spawned before the loop.
\<close>

definition main_setup :: "world \<Rightarrow> args \<Rightarrow> config option \<Rightarrow> outcome + settings \<times> backend list" where
  "main_setup w args cfg_file =
     (case cfg_file of
        None \<Rightarrow> Inl (Exited 1)
      | Some cfg \<Rightarrow>
          (case from_config cfg of
             Inl e \<Rightarrow> Inl (Crashed e)
           | Inr metric \<Rightarrow>
               let S0 = \<lparr>s_metric = metric,
                         s_runs = (if a_runs args < 0 then c_runs cfg else a_runs args),
                         s_warmup_runs = (if a_warmup_runs args < 0 then c_warmup_runs cfg
                                          else a_warmup_runs args),
                         s_timeout_s = c_timeout_seconds cfg,
                         s_strict = c_strict cfg,
                         s_fallback = (case c_metric_fallback_to_wall_time cfg of
                                         Some f \<Rightarrow> f
                                       | None \<Rightarrow> mc_key metric = ''wall_seconds''),
                         s_variables = build_template_variables w cfg,
                         s_backend_commands = []\<rparr>;
                   backends = c_backends cfg
               in if backends = [] then Inl (Exited 1)
                  else
                    (case resolve_commands (parse_backend_filters (a_backend args))
                            (s_variables S0) backends [] of
                       Inl e \<Rightarrow> Inl (Crashed e)
                     | Inr backend_commands \<Rightarrow>
                         if backend_commands = [] then Inl (Exited 1)
                         else if a_dry_run args then Inl (Exited 0)
                         else Inr (S0\<lparr>s_backend_commands := backend_commands\<rparr>, backends))))"

definition main :: "world \<Rightarrow> args \<Rightarrow> config option \<Rightarrow> outcome \<times> run_state" where
  "main w args cfg_file =
     (case main_setup w args cfg_file of
        Inl out \<Rightarrow> (out, initial_state)
      | Inr (S, backends) \<Rightarrow>
          (case run_backends w S backends initial_state of
             (Raised e, st) \<Rightarrow> (Crashed e, st)
           | (Returned c, st) \<Rightarrow> (Exited c, st)
           | (Normal, st) \<Rightarrow>
               (case assign_median_vs_best (mc_direction (s_metric S)) (result_rows st) of
                  Inl e \<Rightarrow> (Crashed e, st)
                | Inr (rows, best_median) \<Rightarrow>
                    (Exited 0, st\<lparr>result_rows := rows, written := Some rows\<rparr>))))"

section \<open>Reports\<close>

subsection \<open>ranking\_key and the ranking (lines 265-266, 307-311, 370-379)\<close>

definition ranking_key :: "string \<Rightarrow> real \<Rightarrow> real" where
  "ranking_key direction v = (if direction = ''higher'' then - v else v)"

text \<open>The list \<^verbatim>\<open>ranked\<close> of the Markdown report, each row with the float of its
  median; \<^verbatim>\<open>list.sort\<close> is stable, as \<open>sort_key\<close> is.\<close>

definition ranked_rows :: "metric_config \<Rightarrow> backend_result list \<Rightarrow> (backend_result \<times> real) list" where
  "ranked_rows metric rows =
     sort_key (\<lambda>(r, med). ranking_key (mc_direction metric) med)
       (List.map_filter (\<lambda>r. map_option (Pair r) (good_median r)) rows)"

text \<open>The numbered lines of the ranking: position (from 1), name, median.\<close>

definition markdown_ranking :: "metric_config \<Rightarrow> backend_result list \<Rightarrow> (nat \<times> string \<times> real) list" where
  "markdown_ranking metric rows =
     map (\<lambda>(idx, (r, med)). (idx, r_name r, med)) (enumerate 1 (ranked_rows metric rows))"

text \<open>The rows of the chart in the HTML report.\<close>

definition chart_rows :: "metric_config \<Rightarrow> backend_result list \<Rightarrow> (string \<times> real) list" where
  "chart_rows metric rows =
     sort_key (\<lambda>item. ranking_key (mc_direction metric) (snd item))
       (List.map_filter (\<lambda>r. map_option (Pair (r_name r)) (good_median r)) rows)"

subsection \<open>build\_svg\_chart (lines 324-363)\<close>

text \<open>
  The chart is the list of the SVG elements in the order the source emits them, each
  with the numbers the source formats into its text (widths and positions before
  \<^verbatim>\<open>:.2f\<close> rounding). Division raises ZeroDivisionError on a zero divisor, as
  Python's does.
\<close>

definition py_div :: "real \<Rightarrow> real \<Rightarrow> py_error + real" where
  "py_div a b = (if b = 0 then Inl ZeroDivisionError else Inr (a / b))"

definition html_escape :: "string \<Rightarrow> string" where
  "html_escape s =
     concat (map (\<lambda>c. if c = CHR ''&'' then ''&amp;''
                       else if c = CHR ''<'' then ''&lt;''
                       else if c = CHR ''>'' then ''&gt;''
                       else if c = CHR 0x22 then ''&quot;''
                       else if c = CHR 0x27 then ''&#x27;''
                       else [c]) s)"

datatype svg_line =
    Svg_open int int
  | Svg_background
  | Svg_title int string string
  | Svg_label int int string
  | Svg_bar int int real
  | Svg_value real int real
  | Svg_close

datatype chart = No_chart | Chart "svg_line list"

text \<open>Lines 337-339: the scale denominator.\<close>

definition chart_max_value :: "(string \<times> real) list \<Rightarrow> py_error + real" where
  "chart_max_value rows =
     (case py_max (map snd rows) of
        Inl e \<Rightarrow> Inl e
      | Inr max_value \<Rightarrow> Inr (if max_value \<le> 0 then 1 else max_value))"

text \<open>Lines 347-360: the three elements of each row.\<close>

fun chart_row_lines :: "int \<Rightarrow> real \<Rightarrow> nat \<Rightarrow> (string \<times> real) list \<Rightarrow> py_error + svg_line list" where
  "chart_row_lines left_pad max_value idx [] = Inr []"
| "chart_row_lines left_pad max_value idx ((name, v) # rest) =
     (let y = 30 + int idx * 36
      in (case py_div v max_value of
            Inl e \<Rightarrow> Inl e
          | Inr q \<Rightarrow>
              let bar_w = q * 560
              in (case chart_row_lines left_pad max_value (Suc idx) rest of
                    Inl e \<Rightarrow> Inl e
                  | Inr ls \<Rightarrow>
                      Inr ([Svg_label (left_pad - 10) (y + 20) (html_escape name),
                            Svg_bar left_pad (y + 6) bar_w,
                            Svg_value (real_of_int left_pad + bar_w + 8) (y + 20) v] @ ls))))"

definition build_svg_chart :: "(string \<times> real) list \<Rightarrow> metric_config \<Rightarrow> py_error + chart" where
  "build_svg_chart rows metric =
     (if rows = [] then Inr No_chart
      else
        let max_label_len = foldr max (map (\<lambda>(name, _). int (length name)) rows) 0;
            left_pad = max 160 (max_label_len * 8 + 20);
            width = left_pad + 560 + 140;
            height = 30 + 30 + 36 * int (length rows)
        in (case chart_max_value rows of
              Inl e \<Rightarrow> Inl e
            | Inr max_value \<Rightarrow>
                (case chart_row_lines left_pad max_value 0 rows of
                   Inl e \<Rightarrow> Inl e
                 | Inr ls \<Rightarrow>
                     Inr (Chart ([Svg_open width height, Svg_background,
                                  Svg_title left_pad (html_escape (mc_key metric))
                                    (html_escape (mc_unit metric))]
                                 @ ls @ [Svg_close])))))"

text \<open>The widths of the bars of a chart, in order.\<close>

fun bar_width :: "svg_line \<Rightarrow> real option" where
  "bar_width (Svg_bar x y w) = Some w"
| "bar_width _ = None"

definition bar_widths :: "svg_line list \<Rightarrow> real list" where
  "bar_widths ls = List.map_filter bar_width ls"

section \<open>Concrete inputs\<close>

text \<open>The result row of a backend whose single measured run succeeded with primary
  metric \<open>med\<close> (one second of wall-clock time).\<close>

definition row_of_one_run :: "string \<Rightarrow> real \<Rightarrow> backend_result" where
  "row_of_one_run name med =
     \<lparr>r_name = name, r_status = ''ok'', r_command = ''run '' @ name, r_cwd = ''/repo'',
      r_runs = [Run_done 1 True 0 1 (Some med) [] [] []],
      r_summary =
        \<lparr>sm_primary_metric =
           Some \<lparr>st_mean = med, st_median = med, st_min = med, st_max = med, st_p95 = med,
                 st_stdev = 0\<rparr>,
         sm_wall_seconds =
           Some \<lparr>st_mean = 1, st_median = 1, st_min = 1, st_max = 1, st_p95 = 1, st_stdev = 0\<rparr>,
         sm_success_runs = 1, sm_failed_runs = 0, sm_aux_metrics = [],
         sm_median_vs_best = None\<rparr>\<rparr>"

definition metric_higher :: metric_config where
  "metric_higher = \<lparr>mc_key = ''tokens_per_second'', mc_unit = ''tokens/s'', mc_direction = ''higher''\<rparr>"

definition metric_lower :: metric_config where
  "metric_lower = \<lparr>mc_key = ''wall_seconds'', mc_unit = ''s'', mc_direction = ''lower''\<rparr>"

subsection \<open>Concrete worlds\<close>

text \<open>\<^verbatim>\<open>re.search\<close> for a pattern made of letters, digits and colons only: such a
  pattern has no metacharacter and no group, and matches where it occurs in the text
  (ignoring case under \<open>IGNORECASE\<close>).\<close>

definition literal_search :: "re_flag list \<Rightarrow> string \<Rightarrow> string \<Rightarrow> re_result" where
  "literal_search flags pattern text =
     (if IGNORECASE \<in> set flags
      then (if str_contains (str_lower pattern) (str_lower text) then Matched [] else No_match)
      else (if str_contains pattern text then Matched [] else No_match))"

text \<open>The answers of \<^verbatim>\<open>re.search\<close> on the text \<^verbatim>\<open>tok:12.5\<close> for three patterns:
  \<^verbatim>\<open>nope:([0-9]+)\<close> does not match, \<^verbatim>\<open>(tok)\<close> captures \<^verbatim>\<open>tok\<close>, and
  \<^verbatim>\<open>tok:([0-9.]+)\<close> captures \<^verbatim>\<open>12.5\<close>; every other question is answered as for a
  literal pattern.\<close>

definition example_search :: "re_flag list \<Rightarrow> string \<Rightarrow> string \<Rightarrow> re_result" where
  "example_search flags pattern text =
     (if text = ''tok:12.5'' \<and> pattern = ''nope:([0-9]+)'' then No_match
      else if text = ''tok:12.5'' \<and> pattern = ''(tok)'' then Matched [Some ''tok'']
      else if text = ''tok:12.5'' \<and> pattern = ''tok:([0-9.]+)'' then Matched [Some ''12.5'']
      else literal_search flags pattern text)"

text \<open>\<^verbatim>\<open>float(s)\<close> for plain unsigned decimal literals (digits, an optional point,
  digits); every other string is refused here, also the exponent forms, signs,
  \<^verbatim>\<open>inf\<close> and \<^verbatim>\<open>nan\<close> that Python accepts.\<close>

definition digits_value :: "string \<Rightarrow> nat" where
  "digits_value ds = foldl (\<lambda>acc c. 10 * acc + (of_char c - 48)) 0 ds"

definition decimal_float :: "string \<Rightarrow> real option" where
  "decimal_float s =
     (let ip = takeWhile is_digit s; rest = dropWhile is_digit s
      in if rest = [] then (if ip = [] then None else Some (real (digits_value ip)))
         else if hd rest = CHR ''.'' \<and> list_all is_digit (tl rest) \<and> (ip \<noteq> [] \<or> tl rest \<noteq> [])
         then Some (real (digits_value ip) + real (digits_value (tl rest)) / 10 ^ length (tl rest))
         else None)"

text \<open>
  A scripted operating system: the command \<^verbatim>\<open>hang\<close> runs into the timeout, the
  command \<^verbatim>\<open>fail\<close> exits with code 1, every other command exits with code 0 after
  one second, printing nothing. Paths are taken relative to \<^verbatim>\<open>/repo\<close>.
\<close>

definition scripted_run :: "spawn \<Rightarrow> nat \<Rightarrow> proc_outcome" where
  "scripted_run sp n =
     (if sp_command sp = ''hang'' then Timed_out
      else if sp_command sp = ''fail'' then Completed 1 [] [] 1
      else Completed 0 [] [] 1)"

definition scripted_world :: world where
  "scripted_world =
     \<lparr>w_subprocess_run = scripted_run, w_re_search = example_search, w_float = decimal_float,
      w_environ = [], w_repo_root = ''/repo'', w_repo_path = (\<lambda>p. ''/repo/'' @ p),
      w_to_posix = (\<lambda>p. p), w_path_name = (\<lambda>p. p)\<rparr>"

subsection \<open>Concrete configurations\<close>

text \<open>An enabled backend with a name and a command template and nothing else
  configured, and a configuration with one warmup run and two measured runs whose
  primary metric is the wall-clock time (so the wall-time fallback is on).\<close>

definition plain_backend :: "string \<Rightarrow> string \<Rightarrow> backend" where
  "plain_backend name command =
     \<lparr>b_enabled = True, b_name = name, b_command = command, b_cwd = ''.'', b_env = [],
      b_metric_regexes = RNone, b_parse = [], b_aux_metrics = []\<rparr>"

definition demo_config :: "bool \<Rightarrow> backend list \<Rightarrow> config" where
  "demo_config strict backends =
     \<lparr>c_benchmark_name = ''demo'', c_hardware = ''cpu'', c_model_path = [],
      c_model_name = None, c_prompt = ''hi'', c_max_tokens = 16, c_runs = 2,
      c_warmup_runs = 1, c_timeout_seconds = 5, c_strict = strict,
      c_metric_key = ''wall_seconds'', c_metric_unit = ''s'', c_metric_direction = ''lower'',
      c_metric_fallback_to_wall_time = None, c_variables = [(''flag'', ''-x'')],
      c_backends = backends\<rparr>"

definition no_args :: args where
  "no_args = \<lparr>a_dry_run = False, a_runs = - 1, a_warmup_runs = - 1, a_backend = []\<rparr>"

text \<open>The settings \<^verbatim>\<open>main\<close> computes from \<open>demo_config\<close> (with the given warmup count
  and resolved commands), and the context of a plain backend under them.\<close>

definition demo_settings :: "bool \<Rightarrow> int \<Rightarrow> (string \<times> string) list \<Rightarrow> settings" where
  "demo_settings strict warmup commands =
     \<lparr>s_metric = metric_lower, s_runs = 2, s_warmup_runs = warmup, s_timeout_s = 5,
      s_strict = strict, s_fallback = True,
      s_variables = [(''flag'', ''-x''), (''repo_root'', ''/repo''), (''model_path'', []),
                     (''model_name'', []), (''prompt'', ''hi''), (''max_tokens'', ''16'')],
      s_backend_commands = commands\<rparr>"

definition demo_ctx :: "string \<Rightarrow> string \<Rightarrow> run_ctx" where
  "demo_ctx name command =
     \<lparr>x_backend_name = name, x_command = command, x_cwd = ''/repo/.'', x_timeout_s = 5,
      x_env = [], x_metric_regexes = [], x_aux_regexes = [],
      x_metric_fallback_to_wall_time = True\<rparr>"

definition demo_spawn :: "string \<Rightarrow> spawn" where
  "demo_spawn command =
     \<lparr>sp_command = command, sp_cwd = ''/repo/.'', sp_env = [], sp_timeout = 5\<rparr>"

definition no_warmup_args :: args where
  "no_warmup_args = \<lparr>a_dry_run = False, a_runs = - 1, a_warmup_runs = 0, a_backend = []\<rparr>"

section \<open>Statistics: proofs\<close>

lemma fold_min_Min: "fold min xs (x::real) = Min (insert x (set xs))"
proof (induction xs arbitrary: x)
  case Nil
  then show ?case by simp
next
  case (Cons y ys)
  have "fold min (y # ys) x = Min (insert (min y x) (set ys))"
    using Cons.IH [of "min y x"] by simp
  also have "\<dots> = Min (insert x (insert y (set ys)))"
    by (cases "set ys = {}") (simp_all add: min.commute min.left_commute insert_commute)
  finally show ?case by simp
qed

lemma fold_max_Max: "fold max xs (x::real) = Max (insert x (set xs))"
proof (induction xs arbitrary: x)
  case Nil
  then show ?case by simp
next
  case (Cons y ys)
  have "fold max (y # ys) x = Max (insert (max y x) (set ys))"
    using Cons.IH [of "max y x"] by simp
  also have "\<dots> = Max (insert x (insert y (set ys)))"
    by (cases "set ys = {}") (simp_all add: max.commute max.left_commute insert_commute)
  finally show ?case by simp
qed

lemma py_min_Min: "values \<noteq> [] \<Longrightarrow> py_min values = Inr (Min (set values))"
  by (cases "values") (simp_all add: fold_min_Min)

lemma py_max_Max: "values \<noteq> [] \<Longrightarrow> py_max values = Inr (Max (set values))"
  by (cases "values") (simp_all add: fold_max_Max)

lemma py_get_in_range: "i < length xs \<Longrightarrow> py_get xs (int i) = Inr (xs ! i)"
  by (simp add: py_get_def)

lemma py_get_nonneg: "0 \<le> i \<Longrightarrow> i < int (length xs) \<Longrightarrow> py_get xs i = Inr (xs ! nat i)"
  by (simp add: py_get_def Let_def)

lemma percentile_low: "values \<noteq> [] \<Longrightarrow> p \<le> 0 \<Longrightarrow> percentile values p = Inr (Min (set values))"
  by (simp add: percentile_def py_min_Min)

lemma percentile_high: "values \<noteq> [] \<Longrightarrow> 100 \<le> p \<Longrightarrow> percentile values p = Inr (Max (set values))"
  by (simp add: percentile_def py_min_Min py_max_Max)

lemma percentile_mid:
  assumes ne: "values \<noteq> []" and p0: "0 < p" and p1: "p < 100"
  defines "s \<equiv> sort values"
  defines "k \<equiv> real (length values - 1) * p / 100"
  shows "percentile values p =
     Inr (s ! nat \<lfloor>k\<rfloor> * (1 - (k - real_of_int \<lfloor>k\<rfloor>)) + s ! nat \<lceil>k\<rceil> * (k - real_of_int \<lfloor>k\<rfloor>))"
proof -
  define m where "m = length values - 1"
  have len: "length s = Suc m" using ne by (cases "values") (simp_all add: s_def m_def)
  have km: "k = real m * p / 100" by (simp add: k_def m_def)
  have k0: "0 \<le> k" using p0 by (simp add: km)
  have fl0: "0 \<le> \<lfloor>k\<rfloor>" using k0 by simp
  have lower: "py_int k = \<lfloor>k\<rfloor>" using k0 by (simp add: py_int_def)
  have unfold: "percentile values p =
      (let lower = py_int k; upper = min (lower + 1) (int (length s) - 1)
       in if lower = upper then py_get s lower
          else (case py_get s lower of Inl e \<Rightarrow> Inl e
                | Inr lo \<Rightarrow> (case py_get s upper of Inl e \<Rightarrow> Inl e
                     | Inr hi \<Rightarrow> Inr (lo * (1 - (k - real_of_int lower)) + hi * (k - real_of_int lower)))))"
    using ne p0 p1 by (simp add: percentile_def Let_def s_def k_def cong: sum.case_cong)
  show ?thesis
  proof (cases "m = 0")
    case True
    then have kz: "k = 0" by (simp add: km)
    have "py_get s 0 = Inr (s ! 0)" using len py_get_nonneg [of 0 s] by simp
    then show ?thesis using True kz len by (simp add: unfold py_int_def Let_def)
  next
    case False
    then have mpos: "0 < real m" by simp
    have "real m * p < real m * 100" using p1 mpos by simp
    then have klt: "k < real m" by (simp add: km)
    have fllt: "\<lfloor>k\<rfloor> < int m" using klt by (simp add: floor_less_iff)
    have up: "min (\<lfloor>k\<rfloor> + 1) (int (length s) - 1) = \<lfloor>k\<rfloor> + 1" using fllt len by simp
    have g1: "py_get s \<lfloor>k\<rfloor> = Inr (s ! nat \<lfloor>k\<rfloor>)"
      using fl0 fllt len by (intro py_get_nonneg) simp_all
    have g2: "py_get s (\<lfloor>k\<rfloor> + 1) = Inr (s ! nat (\<lfloor>k\<rfloor> + 1))"
      using fl0 fllt len by (intro py_get_nonneg) simp_all
    have code: "percentile values p =
       Inr (s ! nat \<lfloor>k\<rfloor> * (1 - (k - real_of_int \<lfloor>k\<rfloor>)) + s ! nat (\<lfloor>k\<rfloor> + 1) * (k - real_of_int \<lfloor>k\<rfloor>))"
      by (simp add: unfold lower up g1 g2 Let_def)
    show ?thesis
    proof (cases "k = real_of_int \<lfloor>k\<rfloor>")
      case True
      then have "\<lceil>k\<rceil> = \<lfloor>k\<rfloor>" by (metis ceiling_of_int)
      with True code show ?thesis by simp
    next
      case False
      then have "\<lceil>k\<rceil> = \<lfloor>k\<rfloor> + 1" by (simp add: ceiling_altdef)
      with code show ?thesis by simp
    qed
  qed
qed

text \<open>
  C5. For every non-empty series, \<open>percentile values p\<close> is the minimum for
  \<open>p \<le> 0\<close>, the maximum for \<open>p \<ge> 100\<close>, and otherwise the linear
  interpolation between the order statistics at \<open>\<lfloor>k\<rfloor>\<close> and \<open>\<lceil>k\<rceil>\<close> of the sorted
  sequence, with \<open>k = (n - 1) * p / 100\<close>; in particular \<open>percentile values 0\<close> is
  the minimum and \<open>percentile values 100\<close> the maximum.
\<close>

theorem percentile_order_statistics:
  assumes "values \<noteq> []"
  shows "(p \<le> 0 \<longrightarrow> percentile values p = Inr (Min (set values))) \<and>
         (100 \<le> p \<longrightarrow> percentile values p = Inr (Max (set values))) \<and>
         (0 < p \<and> p < 100 \<longrightarrow>
            percentile values p =
              Inr (sort values ! nat \<lfloor>real (length values - 1) * p / 100\<rfloor> *
                     (1 - (real (length values - 1) * p / 100 -
                           real_of_int \<lfloor>real (length values - 1) * p / 100\<rfloor>)) +
                   sort values ! nat \<lceil>real (length values - 1) * p / 100\<rceil> *
                     (real (length values - 1) * p / 100 -
                      real_of_int \<lfloor>real (length values - 1) * p / 100\<rfloor>))) \<and>
         percentile values 0 = Inr (Min (set values)) \<and>
         percentile values 100 = Inr (Max (set values))"
proof -
  have "percentile values 0 = Inr (Min (set values))"
    using assms by (rule percentile_low) simp
  moreover have "percentile values 100 = Inr (Max (set values))"
    using assms by (rule percentile_high) simp
  ultimately show ?thesis
    using percentile_low [OF assms, of p] percentile_high [OF assms, of p]
      percentile_mid [OF assms, of p]
    by blast
qed

theorem percentile_order_statistics_witness:
  "[1, 2, 3, 4 :: real] \<noteq> [] \<and>
   percentile [1, 2, 3, 4] 50 = Inr (5 / 2) \<and>
   percentile [3, 1, 2] 50 = Inr 2 \<and>
   percentile [3, 1, 2] (-5) = Inr 1 \<and>
   percentile [3, 1, 2] 250 = Inr 3 \<and>
   percentile [3, 1, 2] 0 = Inr 1 \<and>
   percentile [3, 1, 2] 100 = Inr 3"
  using percentile_order_statistics [of "[1, 2, 3, 4]" 50]
    percentile_order_statistics [of "[3, 1, 2]" 50]
    percentile_order_statistics [of "[3, 1, 2]" "-5"]
    percentile_order_statistics [of "[3, 1, 2]" 250]
  by simp

lemma sum_list_lower: "(\<And>x. x \<in> set xs \<Longrightarrow> a \<le> x) \<Longrightarrow> a * real (length xs) \<le> sum_list (xs :: real list)"
  by (induction xs) (auto simp: algebra_simps intro: add_mono)

lemma sum_list_upper: "(\<And>x. x \<in> set xs \<Longrightarrow> x \<le> b) \<Longrightarrow> sum_list (xs :: real list) \<le> b * real (length xs)"
  by (induction xs) (auto simp: algebra_simps intro: add_mono)

lemma mean_bounds:
  assumes "values \<noteq> []"
  shows "Min (set values) \<le> sum_list values / real (length values)"
    and "sum_list values / real (length values) \<le> Max (set values)"
proof -
  have n: "0 < real (length values)" using assms by simp
  have "Min (set values) * real (length values) \<le> sum_list values"
    by (rule sum_list_lower) simp
  then show "Min (set values) \<le> sum_list values / real (length values)"
    using n by (simp add: pos_le_divide_eq)
  have "sum_list values \<le> Max (set values) * real (length values)"
    by (rule sum_list_upper) simp
  then show "sum_list values / real (length values) \<le> Max (set values)"
    using n by (simp add: pos_divide_le_eq)
qed

lemma sorted_nth_bounds:
  assumes "i < length (values :: real list)"
  shows "Min (set values) \<le> sort values ! i" and "sort values ! i \<le> Max (set values)"
proof -
  have "sort values ! i \<in> set (sort values)" using assms by (intro nth_mem) simp
  then have "sort values ! i \<in> set values" by simp
  then show "Min (set values) \<le> sort values ! i" and "sort values ! i \<le> Max (set values)"
    by simp_all
qed

lemma median_bounds:
  assumes "values \<noteq> []"
  shows "\<exists>m. stat_median values = Inr m \<and> Min (set values) \<le> m \<and> m \<le> Max (set values)"
proof -
  let ?n = "length values"
  have n: "0 < ?n" using assms by simp
  have sne: "sort values \<noteq> []" using assms by (metis length_0_conv length_sort)
  have h: "?n div 2 < ?n" using n by simp
  have h1: "?n div 2 - 1 < ?n" using n by arith
  show ?thesis
  proof (cases "?n mod 2 = 1")
    case True
    then have "stat_median values = Inr (sort values ! (?n div 2))"
      using sne by (simp add: stat_median_def Let_def)
    then show ?thesis using sorted_nth_bounds [OF h] by simp
  next
    case False
    define a where "a = sort values ! (?n div 2 - 1)"
    define b where "b = sort values ! (?n div 2)"
    have code: "stat_median values = Inr ((a + b) / 2)"
      using False sne by (simp add: stat_median_def Let_def a_def b_def)
    have "Min (set values) \<le> a" "Min (set values) \<le> b" "a \<le> Max (set values)" "b \<le> Max (set values)"
      using sorted_nth_bounds [OF h] sorted_nth_bounds [OF h1] by (simp_all add: a_def b_def)
    then have "Min (set values) \<le> (a + b) / 2" "(a + b) / 2 \<le> Max (set values)"
      by simp_all
    with code show ?thesis by blast
  qed
qed

lemma percentile_total: "values \<noteq> [] \<Longrightarrow> \<exists>v. percentile values p = Inr v"
  using percentile_low [of "values" p] percentile_high [of "values" p] percentile_mid [of "values" p]
  by (cases "p \<le> 0"; cases "100 \<le> p") auto

lemma summarize_nonempty:
  assumes ne: "values \<noteq> []"
  shows "\<exists>s. summarize values = Inr (Some s) \<and>
        st_mean s = sum_list values / real (length values) \<and>
        stat_median values = Inr (st_median s) \<and>
        st_min s = Min (set values) \<and>
        st_max s = Max (set values) \<and>
        percentile values 95 = Inr (st_p95 s) \<and>
        st_stdev s = sqrt (sum_list (map (\<lambda>x. (x - st_mean s)\<^sup>2) values) / real (length values)) \<and>
        st_min s \<le> st_median s \<and> st_median s \<le> st_max s \<and>
        st_min s \<le> st_mean s \<and> st_mean s \<le> st_max s \<and>
        (length values = 1 \<longrightarrow> st_stdev s = 0)"
proof -
  obtain m where m: "stat_median values = Inr m" "Min (set values) \<le> m" "m \<le> Max (set values)"
    using median_bounds [OF ne] by blast
  obtain q where q: "percentile values 95 = Inr q"
    using percentile_total [OF ne] by blast
  define mu where "mu = sum_list values / real (length values)"
  define sd where "sd = sqrt (sum_list (map (\<lambda>x. (x - mu)\<^sup>2) values) / real (length values))"
  have single: "sd = 0" if "length values = 1"
  proof -
    from that obtain x where "values = [x]" by (cases "values") simp_all
    then show ?thesis by (simp add: sd_def mu_def)
  qed
  have sdcode: "(if length values > 1 then stat_pstdev values else Inr 0) = Inr sd"
  proof (cases "length values > 1")
    case True
    then show ?thesis using ne by (simp add: stat_pstdev_def Let_def sd_def mu_def)
  next
    case False
    then have "length values = 1" using ne by (cases "values") simp_all
    then show ?thesis using single by simp
  qed
  let ?s = "\<lparr>st_mean = mu, st_median = m, st_min = Min (set values),
             st_max = Max (set values), st_p95 = q, st_stdev = sd\<rparr>"
  have "summarize values = Inr (Some ?s)"
    using ne m(1) q sdcode
    by (simp add: summarize_def stat_mean_def py_min_Min py_max_Max mu_def Let_def)
  moreover have "Min (set values) \<le> mu" "mu \<le> Max (set values)"
    using mean_bounds [OF ne] by (simp_all add: mu_def)
  ultimately show ?thesis
    using m q single by (intro exI [of _ ?s]) (simp add: mu_def sd_def)
qed

text \<open>
  C6. \<open>summarize\<close> of an empty series is the empty summary, without error; of a
  non-empty series it is a summary holding the mean, the median, the minimum, the
  maximum, the 95th percentile and the population standard deviation, with
  \<open>min \<le> median \<le> max\<close> and \<open>min \<le> mean \<le> max\<close>, and a standard deviation of zero
  for a single-element series.
\<close>

theorem summarize_spec:
  "summarize [] = Inr None \<and>
   (values \<noteq> [] \<longrightarrow>
     (\<exists>s. summarize values = Inr (Some s) \<and>
        st_mean s = sum_list values / real (length values) \<and>
        stat_median values = Inr (st_median s) \<and>
        st_min s = Min (set values) \<and>
        st_max s = Max (set values) \<and>
        percentile values 95 = Inr (st_p95 s) \<and>
        st_stdev s = sqrt (sum_list (map (\<lambda>x. (x - st_mean s)\<^sup>2) values) / real (length values)) \<and>
        st_min s \<le> st_median s \<and> st_median s \<le> st_max s \<and>
        st_min s \<le> st_mean s \<and> st_mean s \<le> st_max s \<and>
        (length values = 1 \<longrightarrow> st_stdev s = 0)))"
  using summarize_nonempty [of "values"] by (simp add: summarize_def)

theorem summarize_spec_witness:
  "[2, 4, 4, 4, 5, 5, 7, 9 :: real] \<noteq> [] \<and>
   summarize [2, 4, 4, 4, 5, 5, 7, 9] =
     Inr (Some \<lparr>st_mean = 5, st_median = 9 / 2, st_min = 2, st_max = 9,
                st_p95 = 83 / 10, st_stdev = 2\<rparr>) \<and>
   length [7 :: real] = 1 \<and>
   summarize [7] =
     Inr (Some \<lparr>st_mean = 7, st_median = 7, st_min = 7, st_max = 7, st_p95 = 7,
                st_stdev = 0\<rparr>)"
  using summarize_spec [of "[2, 4, 4, 4, 5, 5, 7, 9]"] summarize_spec [of "[7]"]
  by (simp add: summarize_def stat_mean_def stat_median_def stat_pstdev_def percentile_def
        py_int_def py_get_def Let_def power2_eq_square)

section \<open>The chart: proofs\<close>

lemma chart_max_value_eq:
  assumes "rows \<noteq> []"
  shows "chart_max_value rows =
           Inr (if Max (snd ` set rows) \<le> 0 then 1 else Max (snd ` set rows))"
proof -
  have "map snd rows \<noteq> []" using assms by simp
  then have "py_max (map snd rows) = Inr (Max (set (map snd rows)))" by (rule py_max_Max)
  then show ?thesis by (simp add: chart_max_value_def)
qed

lemma bar_widths_append: "bar_widths (xs @ ys) = bar_widths xs @ bar_widths ys"
  by (simp add: bar_widths_def map_filter_def)

lemma bar_widths_simps:
  "bar_widths [] = []"
  "bar_widths (Svg_bar x y w # ls) = w # bar_widths ls"
  "bar_widths (Svg_open a b # ls) = bar_widths ls"
  "bar_widths (Svg_background # ls) = bar_widths ls"
  "bar_widths (Svg_title a n u # ls) = bar_widths ls"
  "bar_widths (Svg_label a b n # ls) = bar_widths ls"
  "bar_widths (Svg_value r b v # ls) = bar_widths ls"
  "bar_widths (Svg_close # ls) = bar_widths ls"
  by (simp_all add: bar_widths_def map_filter_def)

lemma chart_row_lines_bars:
  assumes "max_value \<noteq> 0"
  shows "\<exists>ls. chart_row_lines left_pad max_value idx rows = Inr ls \<and>
              bar_widths ls = map (\<lambda>(name, v). v / max_value * 560) rows"
proof (induction rows arbitrary: idx)
  case Nil
  then show ?case by (simp add: bar_widths_simps)
next
  case (Cons row rows)
  obtain name v where row: "row = (name, v)" by (cases row)
  obtain ls where ls: "chart_row_lines left_pad max_value (Suc idx) rows = Inr ls"
    "bar_widths ls = map (\<lambda>(name, v). v / max_value * 560) rows"
    using Cons.IH [of "Suc idx"] by blast
  show ?case using assms ls
    by (simp add: row py_div_def Let_def bar_widths_simps)
qed

text \<open>
  C8. For every non-empty list of (name, median) rows, also when every median is zero
  or negative, the chart renderer never divides by zero: the scale denominator is
  positive, it is 1 when the largest median is not positive, and the chart has one bar
  per row, of width \<open>median / denominator * 560\<close>.
\<close>

theorem build_svg_chart_scale:
  assumes "rows \<noteq> []"
  shows "\<exists>max_value ls.
           chart_max_value rows = Inr max_value \<and> 0 < max_value \<and>
           (Max (snd ` set rows) \<le> 0 \<longrightarrow> max_value = 1) \<and>
           (0 < Max (snd ` set rows) \<longrightarrow> max_value = Max (snd ` set rows)) \<and>
           build_svg_chart rows metric = Inr (Chart ls) \<and>
           bar_widths ls = map (\<lambda>(name, v). v / max_value * 560) rows \<and>
           length (bar_widths ls) = length rows"
proof -
  define m where "m = (if Max (snd ` set rows) \<le> 0 then 1 else Max (snd ` set rows))"
  have mv: "chart_max_value rows = Inr m"
    using chart_max_value_eq [OF assms] by (simp add: m_def)
  have pos: "0 < m" by (simp add: m_def)
  then have nz: "m \<noteq> 0" by simp
  define left_pad where
    "left_pad = max 160 (foldr max (map (\<lambda>(name, _). int (length name)) rows) 0 * 8 + 20)"
  obtain ls where ls: "chart_row_lines left_pad m 0 rows = Inr ls"
    "bar_widths ls = map (\<lambda>(name, v). v / m * 560) rows"
    using chart_row_lines_bars [OF nz] by blast
  let ?all = "[Svg_open (left_pad + 560 + 140) (30 + 30 + 36 * int (length rows)), Svg_background,
               Svg_title left_pad (html_escape (mc_key metric)) (html_escape (mc_unit metric))]
              @ ls @ [Svg_close]"
  have built: "build_svg_chart rows metric = Inr (Chart ?all)"
    using assms mv ls(1) by (simp add: build_svg_chart_def Let_def left_pad_def)
  have bw: "bar_widths ?all = bar_widths ls"
    by (simp add: bar_widths_append bar_widths_simps)
  have "length (bar_widths ?all) = length rows" using bw ls(2) by simp
  with mv pos built bw ls(2) show ?thesis
    by (intro exI [of _ m] exI [of _ ?all]) (simp add: m_def)
qed

theorem build_svg_chart_scale_witness:
  "[(''A'', 0 :: real), (''B'', 0)] \<noteq> [] \<and>
   chart_max_value [(''A'', 0), (''B'', 0)] = Inr 1 \<and>
   build_svg_chart [(''A'', 0), (''B'', 0)]
       \<lparr>mc_key = ''tps'', mc_unit = ''t/s'', mc_direction = ''higher''\<rparr> =
     Inr (Chart [Svg_open 860 132, Svg_background, Svg_title 160 ''tps'' ''t/s'',
                 Svg_label 150 50 ''A'', Svg_bar 160 36 0, Svg_value 168 50 0,
                 Svg_label 150 86 ''B'', Svg_bar 160 72 0, Svg_value 168 86 0,
                 Svg_close]) \<and>
   bar_widths [Svg_open 860 132, Svg_background, Svg_title 160 ''tps'' ''t/s'',
               Svg_label 150 50 ''A'', Svg_bar 160 36 0, Svg_value 168 50 0,
               Svg_label 150 86 ''B'', Svg_bar 160 72 0, Svg_value 168 86 0,
               Svg_close] = [0, 0]"
  using build_svg_chart_scale [of "[(''A'', 0), (''B'', 0)]"
      "\<lparr>mc_key = ''tps'', mc_unit = ''t/s'', mc_direction = ''higher''\<rparr>"]
  by (simp add: build_svg_chart_def chart_max_value_def py_div_def Let_def html_escape_def
        bar_widths_simps)

section \<open>Ranking and ratios: proofs\<close>

lemma set_map_filter: "set (List.map_filter f xs) = {y. \<exists>x\<in>set xs. f x = Some y}"
  by (induction xs) (auto simp: List.map_filter_simps split: option.splits)

lemma map_filter_Nil_iff: "List.map_filter f xs = [] \<longleftrightarrow> (\<forall>x\<in>set xs. f x = None)"
  by (induction xs) (auto simp: List.map_filter_simps split: option.splits)

lemma ranked_rows_sorted:
  "sorted (map (\<lambda>(r, med). ranking_key (mc_direction metric) med) (ranked_rows metric rows))"
  unfolding ranked_rows_def by (rule sorted_sort_key)

lemma ranked_rows_set:
  "set (ranked_rows metric rows) = {(r, med). r \<in> set rows \<and> good_median r = Some med}"
  unfolding ranked_rows_def by (auto simp: set_map_filter)

lemma ranked_rows_mset: "mset (ranked_rows metric rows) = mset (List.map_filter (\<lambda>r. map_option (Pair r) (good_median r)) rows)"
  unfolding ranked_rows_def by simp

lemma best_median_eq:
  assumes "medians \<noteq> []"
  shows "(if d = ''higher'' then py_max medians else py_min medians) =
         Inr (if d = ''higher'' then Max (set medians) else Min (set medians))"
  using assms by (simp add: py_max_Max py_min_Min)

lemma assign_none:
  "List.map_filter good_median rows = [] \<Longrightarrow> assign_median_vs_best d rows = Inr (rows, None)"
  by (simp add: assign_median_vs_best_def)

lemma assign_nonpos:
  assumes "List.map_filter good_median rows \<noteq> []"
    and "best = (if d = ''higher'' then Max (set (List.map_filter good_median rows))
                  else Min (set (List.map_filter good_median rows)))"
    and "best \<le> 0"
  shows "assign_median_vs_best d rows = Inr (rows, Some best)"
proof -
  have bm: "(if d = ''higher'' then py_max (List.map_filter good_median rows)
             else py_min (List.map_filter good_median rows)) = Inr best"
    using best_median_eq [OF assms(1), of d] assms(2) by simp
  show ?thesis using assms(1,3) bm by (simp add: assign_median_vs_best_def Let_def)
qed

lemma assign_pos:
  assumes "List.map_filter good_median rows \<noteq> []"
    and "best = (if d = ''higher'' then Max (set (List.map_filter good_median rows))
                  else Min (set (List.map_filter good_median rows)))"
    and "0 < best"
  shows "assign_median_vs_best d rows =
     Inr (map (\<lambda>row. case good_median row of None \<Rightarrow> row
                | Some med \<Rightarrow> set_median_vs_best (if d = ''higher'' then med / best else best / med) row) rows,
          Some best)"
proof -
  have nz: "med \<noteq> 0" if "row \<in> set rows" "good_median row = Some med" "d \<noteq> ''higher''" for row med
  proof -
    have "med \<in> set (List.map_filter good_median rows)" using that by (auto simp: set_map_filter)
    then have "Min (set (List.map_filter good_median rows)) \<le> med" by simp
    then show ?thesis using assms(2,3) that(3) by simp
  qed
  have bm: "(if d = ''higher'' then py_max (List.map_filter good_median rows)
             else py_min (List.map_filter good_median rows)) = Inr best"
    using best_median_eq [OF assms(1), of d] assms(2) by simp
  have "assign_median_vs_best d rows =
     Inr (map (\<lambda>row. case good_median row of None \<Rightarrow> row
            | Some med \<Rightarrow> if d = ''higher'' then set_median_vs_best (med / best) row
                else set_median_vs_best (if med \<noteq> 0 then best / med else 0) row) rows,
          Some best)"
    using assms(1,3) bm by (simp add: assign_median_vs_best_def Let_def)
  moreover have "map (\<lambda>row. case good_median row of None \<Rightarrow> row
            | Some med \<Rightarrow> if d = ''higher'' then set_median_vs_best (med / best) row
                else set_median_vs_best (if med \<noteq> 0 then best / med else 0) row) rows =
        map (\<lambda>row. case good_median row of None \<Rightarrow> row
            | Some med \<Rightarrow> set_median_vs_best (if d = ''higher'' then med / best else best / med) row) rows"
    using nz by (intro map_cong refl) (auto split: option.splits)
  ultimately show ?thesis by simp
qed


lemma good_median_iff:
  "good_median r = Some med \<longleftrightarrow>
     r_status r = ''ok'' \<and> (\<exists>s. sm_primary_metric (r_summary r) = Some s \<and> st_median s = med)"
  by (auto simp: good_median_def split: option.splits)

lemma ratio_of_set_median_vs_best [simp]:
  "sm_median_vs_best (r_summary (set_median_vs_best x row)) = Some x"
  by (simp add: set_median_vs_best_def)

text \<open>
  C4 (amended). Exactly the rows with status \<^verbatim>\<open>"ok"\<close> and a median of the primary
  metric are ranked; the ranking is sorted ascending by the ranking key, which is the
  median for direction \<^verbatim>\<open>"lower"\<close> and the negated median for \<^verbatim>\<open>"higher"\<close>. The
  best median is the largest for \<^verbatim>\<open>"higher"\<close> and the smallest otherwise; when it is
  positive every ranked row gets the ratio \<open>median / best\<close> for \<^verbatim>\<open>"higher"\<close> and
  \<open>best / median\<close> otherwise, and no other row changes. Ratios are omitted exactly
  when no backend is ranked or the best median is not positive (zero or negative).
  The rows are those \<^verbatim>\<open>main\<close> collected: none has a ratio yet.
\<close>

theorem ranking_and_ratios:
  assumes fresh: "\<forall>r\<in>set rows. sm_median_vs_best (r_summary r) = None"
  shows
    "set (ranked_rows metric rows) =
       {(r, med). r \<in> set rows \<and> r_status r = ''ok'' \<and>
          (\<exists>s. sm_primary_metric (r_summary r) = Some s \<and> st_median s = med)} \<and>
     length (ranked_rows metric rows) = length (filter (\<lambda>r. good_median r \<noteq> None) rows) \<and>
     sorted (map (\<lambda>(r, med). ranking_key (mc_direction metric) med) (ranked_rows metric rows)) \<and>
     (mc_direction metric = ''lower'' \<longrightarrow> sorted (map snd (ranked_rows metric rows))) \<and>
     (mc_direction metric = ''higher'' \<longrightarrow>
        sorted (map (\<lambda>(r, med). - med) (ranked_rows metric rows))) \<and>
     (\<exists>rows' best.
        assign_median_vs_best (mc_direction metric) rows = Inr (rows', best) \<and>
        (best = None \<longleftrightarrow> List.map_filter good_median rows = []) \<and>
        (List.map_filter good_median rows \<noteq> [] \<longrightarrow>
           best = Some (if mc_direction metric = ''higher''
                        then Max (set (List.map_filter good_median rows))
                        else Min (set (List.map_filter good_median rows)))) \<and>
        (\<forall>b. best = Some b \<and> 0 < b \<longrightarrow>
           rows' = map (\<lambda>row. case good_median row of
                                 None \<Rightarrow> row
                               | Some med \<Rightarrow>
                                   set_median_vs_best
                                     (if mc_direction metric = ''higher'' then med / b else b / med)
                                     row) rows) \<and>
        (best = None \<or> (\<exists>b. best = Some b \<and> b \<le> 0) \<longrightarrow> rows' = rows) \<and>
        ((\<forall>r'\<in>set rows'. sm_median_vs_best (r_summary r') = None) \<longleftrightarrow>
           (best = None \<or> (\<exists>b. best = Some b \<and> b \<le> 0))))"
proof -
  let ?d = "mc_direction metric"
  let ?M = "List.map_filter good_median rows"
  have part: "set (ranked_rows metric rows) =
       {(r, med). r \<in> set rows \<and> r_status r = ''ok'' \<and>
          (\<exists>s. sm_primary_metric (r_summary r) = Some s \<and> st_median s = med)}"
    by (simp add: ranked_rows_set good_median_iff)
  have len: "length (ranked_rows metric rows) = length (filter (\<lambda>r. good_median r \<noteq> None) rows)"
    by (simp add: ranked_rows_def map_filter_def)
  have srt: "sorted (map (\<lambda>(r, med). ranking_key ?d med) (ranked_rows metric rows))"
    by (rule ranked_rows_sorted)
  have lo: "?d = ''lower'' \<longrightarrow> sorted (map snd (ranked_rows metric rows))"
  proof
    assume "?d = ''lower''"
    then have "(\<lambda>(r :: backend_result, med). ranking_key ?d med) = snd"
      by (auto simp: ranking_key_def)
    with srt show "sorted (map snd (ranked_rows metric rows))" by simp
  qed
  have hi: "?d = ''higher'' \<longrightarrow> sorted (map (\<lambda>(r, med). - med) (ranked_rows metric rows))"
  proof
    assume "?d = ''higher''"
    then have "(\<lambda>(r :: backend_result, med). ranking_key ?d med) = (\<lambda>(r, med). - med)"
      by (auto simp: ranking_key_def)
    with srt show "sorted (map (\<lambda>(r, med). - med) (ranked_rows metric rows))" by simp
  qed
  have ratios: "\<exists>rows' best.
        assign_median_vs_best ?d rows = Inr (rows', best) \<and>
        (best = None \<longleftrightarrow> ?M = []) \<and>
        (?M \<noteq> [] \<longrightarrow> best = Some (if ?d = ''higher'' then Max (set ?M) else Min (set ?M))) \<and>
        (\<forall>b. best = Some b \<and> 0 < b \<longrightarrow>
           rows' = map (\<lambda>row. case good_median row of
                                 None \<Rightarrow> row
                               | Some med \<Rightarrow>
                                   set_median_vs_best (if ?d = ''higher'' then med / b else b / med)
                                     row) rows) \<and>
        (best = None \<or> (\<exists>b. best = Some b \<and> b \<le> 0) \<longrightarrow> rows' = rows) \<and>
        ((\<forall>r'\<in>set rows'. sm_median_vs_best (r_summary r') = None) \<longleftrightarrow>
           (best = None \<or> (\<exists>b. best = Some b \<and> b \<le> 0)))"
  proof (cases "?M = []")
    case True
    have "assign_median_vs_best ?d rows = Inr (rows, None)" using True by (rule assign_none)
    then show ?thesis using True fresh by (intro exI [of _ rows] exI [of _ None]) simp
  next
    case False
    define best where "best = (if ?d = ''higher'' then Max (set ?M) else Min (set ?M))"
    show ?thesis
    proof (cases "0 < best")
      case neg: False
      then have "best \<le> 0" by simp
      then have "assign_median_vs_best ?d rows = Inr (rows, Some best)"
        using assign_nonpos [OF False best_def] by simp
      then show ?thesis using False fresh \<open>best \<le> 0\<close>
        by (intro exI [of _ rows] exI [of _ "Some best"]) (simp add: best_def)
    next
      case pos: True
      let ?rows' = "map (\<lambda>row. case good_median row of None \<Rightarrow> row
                | Some med \<Rightarrow> set_median_vs_best (if ?d = ''higher'' then med / best else best / med) row) rows"
      have code: "assign_median_vs_best ?d rows = Inr (?rows', Some best)"
        using assign_pos [OF False best_def pos] .
      obtain r med where r: "r \<in> set rows" "good_median r = Some med"
        using False by (auto simp: map_filter_Nil_iff)
      define r0 where "r0 = set_median_vs_best (if ?d = ''higher'' then med / best else best / med) r"
      have mem: "r0 \<in> set ?rows'" using r unfolding r0_def by force
      have some: "sm_median_vs_best (r_summary r0) \<noteq> None" by (simp add: r0_def)
      have ex: "\<not> (\<forall>r'\<in>set ?rows'. sm_median_vs_best (r_summary r') = None)"
      proof
        assume "\<forall>r'\<in>set ?rows'. sm_median_vs_best (r_summary r') = None"
        from bspec [OF this mem] some show False by simp
      qed
      show ?thesis
      proof (intro exI [of _ ?rows'] exI [of _ "Some best"] conjI)
        show "assign_median_vs_best ?d rows = Inr (?rows', Some best)" by (rule code)
        show "(Some best = None) = (?M = [])" using False by simp
        show "?M \<noteq> [] \<longrightarrow>
              Some best = Some (if ?d = ''higher'' then Max (set ?M) else Min (set ?M))"
          by (simp add: best_def)
        show "\<forall>b. Some best = Some b \<and> 0 < b \<longrightarrow>
                ?rows' = map (\<lambda>row. case good_median row of
                                 None \<Rightarrow> row
                               | Some med \<Rightarrow>
                                   set_median_vs_best (if ?d = ''higher'' then med / b else b / med)
                                     row) rows"
          by simp
        show "Some best = None \<or> (\<exists>b. Some best = Some b \<and> b \<le> 0) \<longrightarrow> ?rows' = rows"
          using pos by simp
        show "(\<forall>r'\<in>set ?rows'. sm_median_vs_best (r_summary r') = None) =
              (Some best = None \<or> (\<exists>b. Some best = Some b \<and> b \<le> 0))"
          using ex pos by simp
      qed
    qed
  qed
  from part len srt lo hi ratios show ?thesis by blast
qed


theorem ranking_and_ratios_witness:
  "sm_median_vs_best (r_summary (row_of_one_run ''b50'' 50)) = None \<and>
   sm_median_vs_best (r_summary (row_of_one_run ''b100'' 100)) = None \<and>
   ranked_rows metric_higher [row_of_one_run ''b50'' 50, row_of_one_run ''b100'' 100] =
     [(row_of_one_run ''b100'' 100, 100), (row_of_one_run ''b50'' 50, 50)] \<and>
   markdown_ranking metric_higher [row_of_one_run ''b50'' 50, row_of_one_run ''b100'' 100] =
     [(1, ''b100'', 100), (2, ''b50'', 50)] \<and>
   assign_median_vs_best (mc_direction metric_higher)
       [row_of_one_run ''b50'' 50, row_of_one_run ''b100'' 100] =
     Inr ([set_median_vs_best (1 / 2) (row_of_one_run ''b50'' 50),
           set_median_vs_best 1 (row_of_one_run ''b100'' 100)], Some 100) \<and>
   assign_median_vs_best (mc_direction metric_lower)
       [row_of_one_run ''b50'' 50, row_of_one_run ''b100'' 100] =
     Inr ([set_median_vs_best 1 (row_of_one_run ''b50'' 50),
           set_median_vs_best (1 / 2) (row_of_one_run ''b100'' 100)], Some 50)"
  using ranking_and_ratios [of "[row_of_one_run ''b50'' 50, row_of_one_run ''b100'' 100]" metric_higher]
    ranking_and_ratios [of "[row_of_one_run ''b50'' 50, row_of_one_run ''b100'' 100]" metric_lower]
  by (simp add: ranked_rows_def markdown_ranking_def enumerate_eq_zip assign_median_vs_best_def
        good_median_def row_of_one_run_def metric_higher_def metric_lower_def ranking_key_def
        map_filter_def set_median_vs_best_def Let_def)

text \<open>
  C4 as stated fails for a negative best median: a single ranked backend with median
  \<open>-1\<close> has best median \<open>-1\<close>, which is not zero, and gets no ratio.
\<close>

theorem ratios_omitted_counterexample:
  "ranked_rows metric_higher [row_of_one_run ''a'' (- 1)] = [(row_of_one_run ''a'' (- 1), - 1)] \<and>
   assign_median_vs_best (mc_direction metric_higher) [row_of_one_run ''a'' (- 1)] =
     Inr ([row_of_one_run ''a'' (- 1)], Some (- 1)) \<and>
   sm_median_vs_best (r_summary (row_of_one_run ''a'' (- 1))) = None \<and>
   (- 1 :: real) \<noteq> 0"
  by (simp add: ranked_rows_def assign_median_vs_best_def good_median_def row_of_one_run_def
        metric_higher_def ranking_key_def map_filter_def Let_def)

section \<open>Metric extraction: proofs\<close>

lemma parse_numeric_metric_step:
  assumes "well_grouped w text p"
  shows "parse_numeric_metric w text (p # ps) =
           (case numeric_capture w text p of
              Some v \<Rightarrow> Inr (Some v)
            | None \<Rightarrow> parse_numeric_metric w text ps)"
  using assms
  by (auto simp: well_grouped_def numeric_capture_def
      split: re_result.splits list.splits option.splits)

text \<open>
  C3 (amended). For every text and every ordered list of patterns each of which
  compiles and, where it matches, has a first capture group that took part in the
  match: extraction tries the patterns in declaration order, with the flags
  \<open>IGNORECASE\<close> and \<open>MULTILINE\<close>, and returns the number parsed from the first capture
  group of the first pattern that matches and whose capture parses as a float; a
  match whose capture is no number is skipped; when no pattern yields a number the
  result is absent; no error is raised.
\<close>

theorem parse_numeric_metric_first:
  assumes "\<forall>p\<in>set regexes. well_grouped w text p"
  shows "parse_numeric_metric w text regexes =
           Inr (case List.find (\<lambda>p. numeric_capture w text p \<noteq> None) regexes of
                  None \<Rightarrow> None
                | Some p \<Rightarrow> numeric_capture w text p) \<and>
         (\<forall>v. parse_numeric_metric w text regexes = Inr (Some v) \<longleftrightarrow>
            (\<exists>i<length regexes. numeric_capture w text (regexes ! i) = Some v \<and>
               (\<forall>j<i. numeric_capture w text (regexes ! j) = None))) \<and>
         (parse_numeric_metric w text regexes = Inr None \<longleftrightarrow>
            (\<forall>p\<in>set regexes. numeric_capture w text p = None))"
  using assms
proof (induction regexes)
  case Nil
  then show ?case by simp
next
  case (Cons p ps)
  have wg: "well_grouped w text p" and rest: "\<forall>q\<in>set ps. well_grouped w text q"
    using Cons.prems by simp_all
  note IH = Cons.IH [OF rest]
  note step = parse_numeric_metric_step [OF wg, of ps]
  show ?case
  proof (cases "numeric_capture w text p")
    case None
    have idx: "(\<exists>i<length (p # ps). numeric_capture w text ((p # ps) ! i) = Some v \<and>
               (\<forall>j<i. numeric_capture w text ((p # ps) ! j) = None)) \<longleftrightarrow>
          (\<exists>i<length ps. numeric_capture w text (ps ! i) = Some v \<and>
               (\<forall>j<i. numeric_capture w text (ps ! j) = None))" (is "?L \<longleftrightarrow> ?R") for v
    proof
      assume ?L
      then obtain i where i: "i < length (p # ps)" "numeric_capture w text ((p # ps) ! i) = Some v"
        "\<forall>j<i. numeric_capture w text ((p # ps) ! j) = None" by blast
      from i(2) None obtain k where k: "i = Suc k" by (cases i) simp_all
      have "\<forall>j<k. numeric_capture w text (ps ! j) = None"
      proof (intro allI impI)
        fix j assume "j < k"
        then have "Suc j < i" using k by simp
        with i(3) have "numeric_capture w text ((p # ps) ! Suc j) = None" by blast
        then show "numeric_capture w text (ps ! j) = None" by simp
      qed
      with i(1,2) k show ?R by auto
    next
      assume ?R
      then obtain i where i: "i < length ps" "numeric_capture w text (ps ! i) = Some v"
        "\<forall>j<i. numeric_capture w text (ps ! j) = None" by blast
      have "\<forall>j<Suc i. numeric_capture w text ((p # ps) ! j) = None"
      proof (intro allI impI)
        fix j assume "j < Suc i"
        then show "numeric_capture w text ((p # ps) ! j) = None"
          using None i(3) by (cases j) simp_all
      qed
      with i(1,2) show ?L by (intro exI [of _ "Suc i"]) simp
    qed
    have eq: "parse_numeric_metric w text (p # ps) = parse_numeric_metric w text ps"
      using step None by (simp del: parse_numeric_metric.simps)
    have fnd: "List.find (\<lambda>p. numeric_capture w text p \<noteq> None) (p # ps) =
               List.find (\<lambda>p. numeric_capture w text p \<noteq> None) ps"
      using None by simp
    have all: "(\<forall>q\<in>set (p # ps). numeric_capture w text q = None) \<longleftrightarrow>
               (\<forall>q\<in>set ps. numeric_capture w text q = None)"
      using None by simp
    show ?thesis unfolding eq fnd all idx by (rule IH)
  next
    case (Some v)
    have "(\<exists>i<length (p # ps). numeric_capture w text ((p # ps) ! i) = Some u \<and>
               (\<forall>j<i. numeric_capture w text ((p # ps) ! j) = None)) \<longleftrightarrow> u = v" (is "?L \<longleftrightarrow> _") for u
    proof
      assume ?L
      then obtain i where i: "i < length (p # ps)" "numeric_capture w text ((p # ps) ! i) = Some u"
        "\<forall>j<i. numeric_capture w text ((p # ps) ! j) = None" by blast
      have "i = 0"
      proof (rule ccontr)
        assume "i \<noteq> 0"
        then have "0 < i" by simp
        with i(3) have "numeric_capture w text ((p # ps) ! 0) = None" by blast
        with Some show False by simp
      qed
      with i(2) Some show "u = v" by simp
    next
      assume "u = v"
      with Some show ?L by (intro exI [of _ 0]) simp
    qed
    then have idx: "\<And>u. (\<exists>i<length (p # ps). numeric_capture w text ((p # ps) ! i) = Some u \<and>
               (\<forall>j<i. numeric_capture w text ((p # ps) ! j) = None)) \<longleftrightarrow> u = v" .
    have eq: "parse_numeric_metric w text (p # ps) = Inr (Some v)"
      using step Some by (simp del: parse_numeric_metric.simps)
    have fnd: "List.find (\<lambda>p. numeric_capture w text p \<noteq> None) (p # ps) = Some p"
      using Some by simp
    have all: "\<not> (\<forall>q\<in>set (p # ps). numeric_capture w text q = None)"
      using Some by simp
    show ?thesis unfolding eq fnd idx using Some all by auto
  qed
qed

theorem parse_numeric_metric_first_witness:
  "well_grouped scripted_world ''tok:12.5'' ''nope:([0-9]+)'' \<and>
   well_grouped scripted_world ''tok:12.5'' ''(tok)'' \<and>
   well_grouped scripted_world ''tok:12.5'' ''tok:([0-9.]+)'' \<and>
   numeric_capture scripted_world ''tok:12.5'' ''(tok)'' = None \<and>
   parse_numeric_metric scripted_world ''tok:12.5''
       [''nope:([0-9]+)'', ''(tok)'', ''tok:([0-9.]+)''] = Inr (Some (25 / 2)) \<and>
   parse_numeric_metric scripted_world ''tok:12.5'' [''nope:([0-9]+)'', ''(tok)''] = Inr None"
proof -
  have w1: "well_grouped scripted_world ''tok:12.5'' ''nope:([0-9]+)''"
    by (simp add: well_grouped_def scripted_world_def example_search_def)
  have w2: "well_grouped scripted_world ''tok:12.5'' ''(tok)''"
    by (simp add: well_grouped_def scripted_world_def example_search_def)
  have w3: "well_grouped scripted_world ''tok:12.5'' ''tok:([0-9.]+)''"
    by (simp add: well_grouped_def scripted_world_def example_search_def)
  have c1: "numeric_capture scripted_world ''tok:12.5'' ''nope:([0-9]+)'' = None"
    by (simp add: numeric_capture_def scripted_world_def example_search_def)
  have c2: "numeric_capture scripted_world ''tok:12.5'' ''(tok)'' = None"
    by (simp add: numeric_capture_def scripted_world_def example_search_def decimal_float_def
          is_digit_def)
  have c3: "numeric_capture scripted_world ''tok:12.5'' ''tok:([0-9.]+)'' = Some (25 / 2)"
    by (simp add: numeric_capture_def scripted_world_def example_search_def decimal_float_def
          is_digit_def digits_value_def)
  have all3: "\<forall>p\<in>set [''nope:([0-9]+)'', ''(tok)'', ''tok:([0-9.]+)''].
                well_grouped scripted_world ''tok:12.5'' p"
    using w1 w2 w3 by simp
  have all2: "\<forall>p\<in>set [''nope:([0-9]+)'', ''(tok)'']. well_grouped scripted_world ''tok:12.5'' p"
    using w1 w2 by simp
  have r3: "parse_numeric_metric scripted_world ''tok:12.5''
              [''nope:([0-9]+)'', ''(tok)'', ''tok:([0-9.]+)''] = Inr (Some (25 / 2))"
    unfolding parse_numeric_metric_first [OF all3, THEN conjunct1] by (simp add: c1 c2 c3 del: not_None_eq)
  have r2: "parse_numeric_metric scripted_world ''tok:12.5'' [''nope:([0-9]+)'', ''(tok)''] = Inr None"
    unfolding parse_numeric_metric_first [OF all2, THEN conjunct1] by (simp add: c1 c2 del: not_None_eq)
  from w1 w2 w3 c2 r3 r2 show ?thesis by blast
qed

text \<open>
  C3 as stated fails for a pattern without a capture group: \<^verbatim>\<open>tok\<close> matches the text
  \<^verbatim>\<open>tok:12.5\<close>, \<^verbatim>\<open>match.group(1)\<close> raises IndexError, and the error leaves the
  extraction, which catches ValueError only.
\<close>

theorem parse_numeric_metric_raises_counterexample:
  "parse_numeric_metric scripted_world ''tok:12.5'' [''tok''] = Inl IndexError"
  by (simp add: scripted_world_def example_search_def literal_search_def str_lower_def
        lower_char_def)

section \<open>Auxiliary extraction rules: proofs\<close>

lemma normalize_regexes_valid: "v \<noteq> ROther \<Longrightarrow> normalize_regexes v = Inr (regexes_of v)"
  by (cases v) simp_all

lemma aux_from_aux_section_map:
  assumes "distinct (map fst xs)" and "\<forall>(k, v)\<in>set xs. v \<noteq> ROther"
  shows "\<exists>res. aux_from_aux_section xs acc = Inr res \<and>
           (\<forall>k. map_of res k =
              (case map_of xs k of Some v \<Rightarrow> Some (regexes_of v) | None \<Rightarrow> map_of acc k))"
  using assms
proof (induction xs arbitrary: acc)
  case Nil
  then show ?case by simp
next
  case (Cons x xs)
  obtain key v where x: "x = (key, v)" by (cases x)
  have v: "v \<noteq> ROther" and rest: "\<forall>(k, v)\<in>set xs. v \<noteq> ROther"
    and d: "distinct (map fst xs)" and fresh: "key \<notin> fst ` set xs"
    using Cons.prems by (auto simp: x)
  obtain res where res: "aux_from_aux_section xs (AList.update key (regexes_of v) acc) = Inr res"
    "\<forall>k. map_of res k =
       (case map_of xs k of Some v' \<Rightarrow> Some (regexes_of v')
        | None \<Rightarrow> map_of (AList.update key (regexes_of v) acc) k)"
    using Cons.IH [OF d rest, of "AList.update key (regexes_of v) acc"] by blast
  have none: "map_of xs key = None" using fresh by (simp add: map_of_eq_None_iff)
  have "aux_from_aux_section (x # xs) acc = Inr res"
    using res(1) v by (simp add: x normalize_regexes_valid)
  moreover have "map_of res k =
       (case map_of (x # xs) k of Some v \<Rightarrow> Some (regexes_of v) | None \<Rightarrow> map_of acc k)" for k
    using res(2) none by (cases "k = key") (auto simp: x update_conv' split: option.splits)
  ultimately show ?case by blast
qed

lemma aux_from_parse_section_map:
  assumes "distinct (map fst xs)"
    and "\<forall>(k, v)\<in>set xs. k \<noteq> mk \<and> map_of acc k = None \<longrightarrow> v \<noteq> ROther"
  shows "\<exists>res. aux_from_parse_section mk xs acc = Inr res \<and>
           (\<forall>k. map_of res k =
              (case map_of acc k of
                 Some rs \<Rightarrow> Some rs
               | None \<Rightarrow> if k = mk then None else map_option regexes_of (map_of xs k)))"
  using assms
proof (induction xs arbitrary: acc)
  case Nil
  then show ?case by (auto split: option.splits)
next
  case (Cons x xs)
  obtain key v where x: "x = (key, v)" by (cases x)
  have d: "distinct (map fst xs)" and fresh: "key \<notin> fst ` set xs"
    using Cons.prems(1) by (auto simp: x)
  have none: "map_of xs key = None" using fresh by (simp add: map_of_eq_None_iff)
  have valid: "\<forall>(k, v)\<in>set xs. k \<noteq> mk \<and> map_of acc k = None \<longrightarrow> v \<noteq> ROther"
    using Cons.prems(2) by auto
  show ?case
  proof (cases "key = mk \<or> map_of acc key \<noteq> None")
    case True
    obtain res where res: "aux_from_parse_section mk xs acc = Inr res"
      "\<forall>k. map_of res k =
         (case map_of acc k of Some rs \<Rightarrow> Some rs
          | None \<Rightarrow> if k = mk then None else map_option regexes_of (map_of xs k))"
      using Cons.IH [OF d valid] by blast
    have "aux_from_parse_section mk (x # xs) acc = Inr res"
      using res(1) True by (auto simp: x)
    moreover have "map_of res k =
         (case map_of acc k of Some rs \<Rightarrow> Some rs
          | None \<Rightarrow> if k = mk then None else map_option regexes_of (map_of (x # xs) k))" for k
      using res(2) True by (cases "k = key") (auto simp: x split: option.splits)
    ultimately show ?thesis by blast
  next
    case False
    then have kmk: "key \<noteq> mk" and fresh_acc: "map_of acc key = None" by simp_all
    have v: "v \<noteq> ROther" using Cons.prems(2) kmk fresh_acc by (auto simp: x)
    let ?acc = "AList.update key (regexes_of v) acc"
    have valid': "\<forall>(k, v)\<in>set xs. k \<noteq> mk \<and> map_of ?acc k = None \<longrightarrow> v \<noteq> ROther"
      using valid by (auto simp: update_conv' split: if_splits)
    obtain res where res: "aux_from_parse_section mk xs ?acc = Inr res"
      "\<forall>k. map_of res k =
         (case map_of ?acc k of Some rs \<Rightarrow> Some rs
          | None \<Rightarrow> if k = mk then None else map_option regexes_of (map_of xs k))"
      using Cons.IH [OF d valid'] by blast
    have "aux_from_parse_section mk (x # xs) acc = Inr res"
      using res(1) kmk fresh_acc v by (simp add: x normalize_regexes_valid)
    moreover have "map_of res k =
         (case map_of acc k of Some rs \<Rightarrow> Some rs
          | None \<Rightarrow> if k = mk then None else map_option regexes_of (map_of (x # xs) k))" for k
      using res(2) kmk fresh_acc by (cases "k = key") (auto simp: x update_conv' split: option.splits)
    ultimately show ?thesis by blast
  qed
qed

text \<open>
  C9. When the auxiliary extraction rules of a backend are assembled from
  dictionaries whose regex values are null, strings or lists, every key of
  \<^verbatim>\<open>aux_metrics\<close> is used with its own regex list, and a key of \<^verbatim>\<open>parse\<close>
  contributes exactly when it is neither the primary metric's key nor a key of
  \<^verbatim>\<open>aux_metrics\<close>: for a key in both, the \<^verbatim>\<open>aux_metrics\<close> list wins.
\<close>

theorem build_aux_regexes_precedence:
  assumes "distinct (map fst aux_section)" and "distinct (map fst parse_section)"
    and "\<forall>(k, v)\<in>set aux_section. v \<noteq> ROther"
    and "\<forall>(k, v)\<in>set parse_section.
           k \<noteq> metric_key \<and> map_of aux_section k = None \<longrightarrow> v \<noteq> ROther"
  shows "\<exists>aux_regexes.
           build_aux_regexes metric_key parse_section aux_section = Inr aux_regexes \<and>
           (\<forall>k. map_of aux_regexes k =
              (case map_of aux_section k of
                 Some v \<Rightarrow> Some (regexes_of v)
               | None \<Rightarrow>
                   if k = metric_key then None
                   else map_option regexes_of (map_of parse_section k)))"
proof -
  obtain acc where acc: "aux_from_aux_section aux_section [] = Inr acc"
    "\<forall>k. map_of acc k =
       (case map_of aux_section k of Some v \<Rightarrow> Some (regexes_of v) | None \<Rightarrow> map_of [] k)"
    using aux_from_aux_section_map [OF assms(1,3), of "[]"] by blast
  have dom: "map_of acc k = None \<longleftrightarrow> map_of aux_section k = None" for k
    using acc(2) by (auto split: option.splits)
  have valid: "\<forall>(k, v)\<in>set parse_section. k \<noteq> metric_key \<and> map_of acc k = None \<longrightarrow> v \<noteq> ROther"
    using assms(4) dom by auto
  obtain res where res: "aux_from_parse_section metric_key parse_section acc = Inr res"
    "\<forall>k. map_of res k =
       (case map_of acc k of Some rs \<Rightarrow> Some rs
        | None \<Rightarrow> if k = metric_key then None else map_option regexes_of (map_of parse_section k))"
    using aux_from_parse_section_map [OF assms(2) valid] by blast
  have "build_aux_regexes metric_key parse_section aux_section = Inr res"
    using acc(1) res(1) by (simp add: build_aux_regexes_def)
  moreover have "map_of res k =
      (case map_of aux_section k of Some v \<Rightarrow> Some (regexes_of v)
       | None \<Rightarrow> if k = metric_key then None else map_option regexes_of (map_of parse_section k))" for k
    using res(2) acc(2) by (auto split: option.splits)
  ultimately show ?thesis by blast
qed

theorem build_aux_regexes_precedence_witness:
  "distinct (map fst [(''prompt_ms'', RStr ''aux_prompt''), (''tokens_per_second'', RNone)]) \<and>
   distinct (map fst [(''tokens_per_second'', RStr ''tps''), (''prompt_ms'', RStr ''parse_prompt''),
                      (''vram'', RList [''v1'', ''v2''])]) \<and>
   (\<exists>aux_regexes.
      build_aux_regexes ''tokens_per_second''
        [(''tokens_per_second'', RStr ''tps''), (''prompt_ms'', RStr ''parse_prompt''),
         (''vram'', RList [''v1'', ''v2''])]
        [(''prompt_ms'', RStr ''aux_prompt''), (''tokens_per_second'', RNone)] = Inr aux_regexes \<and>
      map_of aux_regexes ''prompt_ms'' = Some [''aux_prompt''] \<and>
      map_of aux_regexes ''tokens_per_second'' = Some [] \<and>
      map_of aux_regexes ''vram'' = Some [''v1'', ''v2''] \<and>
      map_of aux_regexes ''other'' = None)"
proof -
  let ?aux = "[(''prompt_ms'', RStr ''aux_prompt''), (''tokens_per_second'', RNone)]"
  let ?parse = "[(''tokens_per_second'', RStr ''tps''), (''prompt_ms'', RStr ''parse_prompt''),
                 (''vram'', RList [''v1'', ''v2''])]"
  have d1: "distinct (map fst ?aux)" by simp
  have d2: "distinct (map fst ?parse)" by simp
  have v1: "\<forall>(k, v)\<in>set ?aux. v \<noteq> ROther" by simp
  have v2: "\<forall>(k, v)\<in>set ?parse.
              k \<noteq> ''tokens_per_second'' \<and> map_of ?aux k = None \<longrightarrow> v \<noteq> ROther" by simp
  obtain res where res: "build_aux_regexes ''tokens_per_second'' ?parse ?aux = Inr res"
    and m: "\<And>k. map_of res k =
       (case map_of ?aux k of
          Some v \<Rightarrow> Some (regexes_of v)
        | None \<Rightarrow> if k = ''tokens_per_second'' then None
                  else map_option regexes_of (map_of ?parse k))"
    using build_aux_regexes_precedence [OF d1 d2 v1 v2] by blast
  have "map_of res ''prompt_ms'' = Some [''aux_prompt'']" by (simp add: m)
  moreover have "map_of res ''tokens_per_second'' = Some []" by (simp add: m)
  moreover have "map_of res ''vram'' = Some [''v1'', ''v2'']" by (simp add: m)
  moreover have "map_of res ''other'' = None" by (simp add: m)
  ultimately show ?thesis using d1 d2 res by blast
qed

section \<open>The orchestrator: proofs\<close>

lemma py_range1_rec: "py_range1 n = (if n \<le> 0 then [] else py_range1 (n - 1) @ [nat n])"
proof (cases "n \<le> 0")
  case True
  then show ?thesis by (simp add: py_range1_def)
next
  case False
  then have "nat (n + 1) = Suc (nat n)" and "1 \<le> nat n" by simp_all
  then have "[1 ..< nat (n + 1)] = [1 ..< nat n] @ [nat n]" by simp
  with False show ?thesis by (simp add: py_range1_def)
qed

lemma length_py_range1: "length (py_range1 n) = nat n"
  by (simp add: py_range1_def)

subsection \<open>One iteration\<close>

lemma warmup_step_timeout_strict:
  assumes "run_once w ctx (length (spawned st)) = Inl TimeoutExpired"
  shows "warmup_loop w True ctx (i # is) st =
           (Raised TimeoutExpired, st\<lparr>spawned := spawned st @ [spawn_of ctx]\<rparr>)"
  using assms by (simp add: exec_run_def)

lemma warmup_step_timeout_lenient:
  assumes "run_once w ctx (length (spawned st)) = Inl TimeoutExpired"
  shows "warmup_loop w False ctx (i # is) st =
           warmup_loop w False ctx is (st\<lparr>spawned := spawned st @ [spawn_of ctx]\<rparr>)"
  using assms by (simp add: exec_run_def)

lemma warmup_step_error:
  assumes "run_once w ctx (length (spawned st)) = Inl e" and "e \<noteq> TimeoutExpired"
  shows "warmup_loop w strict ctx (i # is) st =
           (Raised e, st\<lparr>spawned := spawned st @ [spawn_of ctx]\<rparr>)"
  using assms by (simp add: exec_run_def)

lemma warmup_step_done:
  assumes "run_once w ctx (length (spawned st)) = Inr r"
  shows "warmup_loop w strict ctx (i # is) st =
           warmup_loop w strict ctx is (st\<lparr>spawned := spawned st @ [spawn_of ctx]\<rparr>)"
  using assms by (simp add: exec_run_def)

lemma measure_step_timeout_strict:
  assumes "run_once w ctx (length (spawned st)) = Inl TimeoutExpired"
  shows "measure_loop w True ctx (i # is) st =
           (Returned 2, record_timeout ctx i (st\<lparr>spawned := spawned st @ [spawn_of ctx]\<rparr>))"
  using assms by (simp add: exec_run_def)

lemma measure_step_timeout_lenient:
  assumes "run_once w ctx (length (spawned st)) = Inl TimeoutExpired"
  shows "measure_loop w False ctx (i # is) st =
           measure_loop w False ctx is
             (record_timeout ctx i (st\<lparr>spawned := spawned st @ [spawn_of ctx]\<rparr>))"
  using assms by (simp add: exec_run_def)

lemma measure_step_error:
  assumes "run_once w ctx (length (spawned st)) = Inl e" and "e \<noteq> TimeoutExpired"
  shows "measure_loop w strict ctx (i # is) st =
           (Raised e, st\<lparr>spawned := spawned st @ [spawn_of ctx]\<rparr>)"
  using assms by (simp add: exec_run_def)

lemma measure_step_ok:
  assumes "run_once w ctx (length (spawned st)) = Inr r" and "run_ok r"
  shows "measure_loop w strict ctx (i # is) st =
           measure_loop w strict ctx is
             (record_run i r (st\<lparr>spawned := spawned st @ [spawn_of ctx]\<rparr>))"
  using assms by (simp add: exec_run_def Let_def)

lemma measure_step_failed_strict:
  assumes "run_once w ctx (length (spawned st)) = Inr r" and "\<not> run_ok r"
  shows "measure_loop w True ctx (i # is) st =
           (Returned 2, record_run i r (st\<lparr>spawned := spawned st @ [spawn_of ctx]\<rparr>))"
  using assms by (simp add: exec_run_def Let_def)

lemma measure_step_failed_lenient:
  assumes "run_once w ctx (length (spawned st)) = Inr r" and "\<not> run_ok r"
  shows "measure_loop w False ctx (i # is) st =
           measure_loop w False ctx is
             (record_run i r (st\<lparr>spawned := spawned st @ [spawn_of ctx]\<rparr>))"
  using assms by (simp add: exec_run_def Let_def)

declare warmup_loop.simps(2) [simp del] measure_loop.simps(2) [simp del]

lemma run_once_cases:
  obtains "run_once w ctx n = Inl TimeoutExpired"
  | e where "run_once w ctx n = Inl e" "e \<noteq> TimeoutExpired"
  | r where "run_once w ctx n = Inr r"
  by (cases "run_once w ctx n") auto

subsection \<open>What the loops leave unchanged\<close>

lemma record_timeout_frame [simp]:
  "spawned (record_timeout ctx i st) = spawned st"
  "result_rows (record_timeout ctx i st) = result_rows st"
  "written (record_timeout ctx i st) = written st"
  "measured_runs (record_timeout ctx i st) = measured_runs st @ [timeout_record (x_timeout_s ctx) i]"
  "failed_runs (record_timeout ctx i st) = failed_runs st + 1"
  by (simp_all add: record_timeout_def)

lemma record_run_frame [simp]:
  "spawned (record_run i record st) = spawned st"
  "result_rows (record_run i record st) = result_rows st"
  "written (record_run i record st) = written st"
  "measured_runs (record_run i record st) = measured_runs st @ [done_record i (run_ok record) record]"
  by (simp_all add: record_run_def Let_def split: option.splits)

lemma record_run_failed:
  "\<not> run_ok record \<Longrightarrow> failed_runs (record_run i record st) = failed_runs st + 1"
  by (simp add: record_run_def Let_def)

lemma warmup_loop_frame:
  "warmup_loop w strict ctx is st = (f, st') \<Longrightarrow>
     \<exists>k. st' = st\<lparr>spawned := spawned st @ replicate k (spawn_of ctx)\<rparr>"
proof (induction "is" arbitrary: st)
  case Nil
  then show ?case by (intro exI [of _ 0]) simp
next
  case (Cons i "is")
  let ?st1 = "st\<lparr>spawned := spawned st @ [spawn_of ctx]\<rparr>"
  have one: "\<exists>k. ?st1 = st\<lparr>spawned := spawned st @ replicate k (spawn_of ctx)\<rparr>"
    by (intro exI [of _ 1]) simp
  have more: "\<exists>k. st' = st\<lparr>spawned := spawned st @ replicate k (spawn_of ctx)\<rparr>"
    if "warmup_loop w strict ctx is ?st1 = (f, st')"
  proof -
    from Cons.IH [OF that] obtain k where
      "st' = ?st1\<lparr>spawned := spawned ?st1 @ replicate k (spawn_of ctx)\<rparr>" by blast
    then have "st' = st\<lparr>spawned := spawned st @ replicate (Suc k) (spawn_of ctx)\<rparr>"
      by (simp add: replicate_app_Cons_same)
    then show ?thesis by blast
  qed
  show ?case
  proof (cases rule: run_once_cases [of w ctx "length (spawned st)"])
    case 1
    show ?thesis
    proof (cases strict)
      case True
      then have "st' = ?st1" using Cons.prems 1 by (simp add: warmup_step_timeout_strict)
      with one show ?thesis by simp
    next
      case False
      then have "warmup_loop w strict ctx is ?st1 = (f, st')"
        using Cons.prems 1 by (simp add: warmup_step_timeout_lenient)
      then show ?thesis by (rule more)
    qed
  next
    case (2 e)
    then have "st' = ?st1" using Cons.prems by (simp add: warmup_step_error)
    with one show ?thesis by simp
  next
    case (3 r)
    then have "warmup_loop w strict ctx is ?st1 = (f, st')"
      using Cons.prems by (simp add: warmup_step_done)
    then show ?thesis by (rule more)
  qed
qed

lemma measure_loop_frame:
  "measure_loop w strict ctx is st = (f, st') \<Longrightarrow>
     result_rows st' = result_rows st \<and> written st' = written st \<and>
     (\<exists>k. spawned st' = spawned st @ replicate k (spawn_of ctx)) \<and>
     (f = Normal \<longrightarrow> length (measured_runs st') = length (measured_runs st) + length is)"
proof (induction "is" arbitrary: st)
  case Nil
  then show ?case by (auto intro: exI [of _ 0])
next
  case (Cons i "is")
  let ?st1 = "st\<lparr>spawned := spawned st @ [spawn_of ctx]\<rparr>"
  have more: "result_rows st' = result_rows st \<and> written st' = written st \<and>
     (\<exists>k. spawned st' = spawned st @ replicate k (spawn_of ctx)) \<and>
     (f = Normal \<longrightarrow> length (measured_runs st') = length (measured_runs st) + length (i # is))"
    if loop: "measure_loop w strict ctx is st2 = (f, st')"
      and st2: "result_rows st2 = result_rows st" "written st2 = written st"
        "spawned st2 = spawned st @ [spawn_of ctx]"
        "length (measured_runs st2) = Suc (length (measured_runs st))" for st2
  proof -
    from Cons.IH [OF loop] obtain k where
      k: "result_rows st' = result_rows st2" "written st' = written st2"
        "spawned st' = spawned st2 @ replicate k (spawn_of ctx)"
        "f = Normal \<longrightarrow> length (measured_runs st') = length (measured_runs st2) + length is"
      by blast
    have "spawned st' = spawned st @ replicate (Suc k) (spawn_of ctx)"
      using k(3) st2(3) by (simp add: replicate_app_Cons_same)
    then have "\<exists>k. spawned st' = spawned st @ replicate k (spawn_of ctx)" by blast
    with k st2 show ?thesis by simp
  qed
  have one: "\<exists>k. spawned st @ [spawn_of ctx] = spawned st @ replicate k (spawn_of ctx)"
    by (intro exI [of _ 1]) simp
  have stop: "result_rows st' = result_rows st \<and> written st' = written st \<and>
     (\<exists>k. spawned st' = spawned st @ replicate k (spawn_of ctx)) \<and>
     (f = Normal \<longrightarrow> length (measured_runs st') = length (measured_runs st) + length (i # is))"
    if "f \<noteq> Normal" "result_rows st' = result_rows st" "written st' = written st"
      "spawned st' = spawned st @ [spawn_of ctx]"
    using that one by simp
  show ?case
  proof (cases rule: run_once_cases [of w ctx "length (spawned st)"])
    case 1
    show ?thesis
    proof (cases strict)
      case True
      then have "f = Returned 2" "st' = record_timeout ctx i ?st1"
        using Cons.prems 1 by (simp_all add: measure_step_timeout_strict)
      then show ?thesis by (intro stop) simp_all
    next
      case False
      then have "measure_loop w strict ctx is (record_timeout ctx i ?st1) = (f, st')"
        using Cons.prems 1 by (simp add: measure_step_timeout_lenient)
      then show ?thesis by (rule more) simp_all
    qed
  next
    case (2 e)
    then have "f = Raised e" "st' = ?st1"
      using Cons.prems by (simp_all add: measure_step_error)
    then show ?thesis by (intro stop) simp_all
  next
    case (3 r)
    show ?thesis
    proof (cases "run_ok r")
      case True
      then have "measure_loop w strict ctx is (record_run i r ?st1) = (f, st')"
        using Cons.prems 3 by (simp add: measure_step_ok)
      then show ?thesis by (rule more) simp_all
    next
      case bad: False
      show ?thesis
      proof (cases strict)
        case True
        then have "f = Returned 2" "st' = record_run i r ?st1"
          using Cons.prems 3 bad by (simp_all add: measure_step_failed_strict)
        then show ?thesis by (intro stop) simp_all
      next
        case False
        then have "measure_loop w strict ctx is (record_run i r ?st1) = (f, st')"
          using Cons.prems 3 bad by (simp add: measure_step_failed_lenient)
        then show ?thesis by (rule more) simp_all
      qed
    qed
  qed
qed


subsection \<open>One backend\<close>

lemma reset_accumulators_frame [simp]:
  "spawned (reset_accumulators st) = spawned st"
  "result_rows (reset_accumulators st) = result_rows st"
  "written (reset_accumulators st) = written st"
  "measured_runs (reset_accumulators st) = []"
  "failed_runs (reset_accumulators st) = 0"
  by (simp_all add: reset_accumulators_def)

lemma prepare_backend_ctx:
  assumes "prepare_backend w S b command = Inr ctx"
  shows "x_command ctx = command" and "x_backend_name ctx = b_name b"
    and "x_timeout_s ctx = s_timeout_s S"
  using assms by (auto simp: prepare_backend_def Let_def split: sum.splits)

lemma summarize_total: "\<exists>s. summarize v = Inr s"
proof (cases "v = []")
  case True
  then show ?thesis by (simp add: summarize_def)
next
  case False
  then show ?thesis using summarize_nonempty [of v] by blast
qed

lemma summarize_all_total: "\<exists>ss. summarize_all av = Inr ss"
proof (induction av)
  case Nil
  then show ?case by simp
next
  case (Cons x av)
  obtain k v where x: "x = (k, v)" by (cases x)
  obtain s where s: "summarize v = Inr s" using summarize_total by blast
  from Cons obtain ss where "summarize_all av = Inr ss" by blast
  with s show ?case by (simp add: x)
qed

lemma summarize_backend_row:
  "\<exists>row. summarize_backend w ctx st = (Normal, st\<lparr>result_rows := result_rows st @ [row]\<rparr>) \<and>
         r_name row = x_backend_name ctx \<and> r_command row = x_command ctx \<and>
         r_runs row = measured_runs st \<and>
         sm_median_vs_best (r_summary row) = None \<and>
         sm_failed_runs (r_summary row) = failed_runs st \<and>
         sm_success_runs (r_summary row) = length (success_metrics st)"
proof -
  obtain pm where pm: "summarize (success_metrics st) = Inr pm" using summarize_total by blast
  obtain ws where ws: "summarize (success_wall st) = Inr ws" using summarize_total by blast
  obtain aux where aux: "summarize_all (aux_values st) = Inr aux" using summarize_all_total by blast
  let ?row = "\<lparr>r_name = x_backend_name ctx,
               r_status = (if success_metrics st \<noteq> [] then ''ok'' else ''failed''),
               r_command = x_command ctx, r_cwd = w_to_posix w (x_cwd ctx),
               r_runs = measured_runs st,
               r_summary = \<lparr>sm_primary_metric = pm, sm_wall_seconds = ws,
                              sm_success_runs = length (success_metrics st),
                              sm_failed_runs = failed_runs st,
                              sm_aux_metrics = aux, sm_median_vs_best = None\<rparr>\<rparr>"
  have "summarize_backend w ctx st = (Normal, st\<lparr>result_rows := result_rows st @ [?row]\<rparr>)"
    using pm ws aux by (simp add: summarize_backend_def Let_def)
  then show ?thesis by (intro exI [of _ ?row]) simp
qed

lemma run_backend_skipped:
  "\<not> b_enabled b \<or> map_of (s_backend_commands S) (b_name b) = None \<Longrightarrow>
     run_backend w S b st = (Normal, st)"
  by (auto simp: run_backend_def)

lemma run_backend_unprepared:
  assumes "b_enabled b" and "map_of (s_backend_commands S) (b_name b) = Some command"
    and "prepare_backend w S b command = Inl e"
  shows "run_backend w S b st = (Raised e, st)"
  using assms by (simp add: run_backend_def)

lemma run_backend_prepared:
  assumes "b_enabled b" and "map_of (s_backend_commands S) (b_name b) = Some command"
    and "prepare_backend w S b command = Inr ctx"
  shows "run_backend w S b st =
     (case warmup_loop w (s_strict S) ctx (py_range1 (s_warmup_runs S)) st of
        (Normal, st1) \<Rightarrow>
          (case measure_loop w (s_strict S) ctx (py_range1 (s_runs S)) (reset_accumulators st1) of
             (Normal, st2) \<Rightarrow> summarize_backend w ctx st2
           | (Returned c, st2) \<Rightarrow> (Returned c, st2)
           | (Raised e, st2) \<Rightarrow> (Raised e, st2))
      | (Returned c, st1) \<Rightarrow> (Returned c, st1)
      | (Raised e, st1) \<Rightarrow> (Raised e, st1))"
  using assms by (simp add: run_backend_def)

lemma run_backend_frame:
  assumes "run_backend w S b st = (f, st')"
  shows "written st' = written st \<and>
     (\<exists>k sp. spawned st' = spawned st @ replicate k sp \<and>
        (0 < k \<longrightarrow> b_enabled b \<and> map_of (s_backend_commands S) (b_name b) = Some (sp_command sp))) \<and>
     (f \<noteq> Normal \<longrightarrow> result_rows st' = result_rows st) \<and>
     (f = Normal \<longrightarrow>
        (if b_enabled b \<and> map_of (s_backend_commands S) (b_name b) \<noteq> None
         then \<exists>row. result_rows st' = result_rows st @ [row] \<and> r_name row = b_name b \<and>
                map_of (s_backend_commands S) (b_name b) = Some (r_command row) \<and>
                length (r_runs row) = nat (s_runs S) \<and>
                sm_median_vs_best (r_summary row) = None
         else result_rows st' = result_rows st))"
proof (cases "b_enabled b \<and> map_of (s_backend_commands S) (b_name b) \<noteq> None")
  case False
  then have "run_backend w S b st = (Normal, st)" by (intro run_backend_skipped) auto
  with assms have "f = Normal" "st' = st" by simp_all
  then show ?thesis using False by (auto intro: exI [of _ 0])
next
  case True
  then obtain command where en: "b_enabled b"
    and cmd: "map_of (s_backend_commands S) (b_name b) = Some command" by auto
  show ?thesis
  proof (cases "prepare_backend w S b command")
    case (Inl e)
    then have "f = Raised e" "st' = st"
      using assms run_backend_unprepared [OF en cmd Inl, of st] by simp_all
    then show ?thesis by (auto intro: exI [of _ 0])
  next
    case (Inr ctx)
    note ctx = prepare_backend_ctx [OF Inr]
    note unfold = run_backend_prepared [OF en cmd Inr, of st]
    obtain fw st1 where wl: "warmup_loop w (s_strict S) ctx (py_range1 (s_warmup_runs S)) st = (fw, st1)"
      by (cases "warmup_loop w (s_strict S) ctx (py_range1 (s_warmup_runs S)) st")
    from warmup_loop_frame [OF wl] obtain k1 where
      k1: "st1 = st\<lparr>spawned := spawned st @ replicate k1 (spawn_of ctx)\<rparr>" by blast
    have spc: "sp_command (spawn_of ctx) = command" using ctx(1) by (simp add: spawn_of_def)
    show ?thesis
    proof (cases "fw = Normal")
      case False
      then have "f = fw" "st' = st1" using assms unfold wl by (cases fw; simp)+
      then show ?thesis using False k1 en cmd spc
        by (auto intro!: exI [of _ k1] exI [of _ "spawn_of ctx"])
    next
      case True
      obtain fm st2 where ml:
        "measure_loop w (s_strict S) ctx (py_range1 (s_runs S)) (reset_accumulators st1) = (fm, st2)"
        by (cases "measure_loop w (s_strict S) ctx (py_range1 (s_runs S)) (reset_accumulators st1)")
      from measure_loop_frame [OF ml] obtain k2 where
        m: "result_rows st2 = result_rows st1" "written st2 = written st1"
          "spawned st2 = spawned st1 @ replicate k2 (spawn_of ctx)"
          "fm = Normal \<longrightarrow> length (measured_runs st2) = length (py_range1 (s_runs S))"
        by auto
      have sp2: "spawned st2 = spawned st @ replicate (k1 + k2) (spawn_of ctx)"
        using m(3) k1 by (simp add: replicate_add)
      have rows2: "result_rows st2 = result_rows st" and wr2: "written st2 = written st"
        using m(1,2) k1 by simp_all
      show ?thesis
      proof (cases "fm = Normal")
        case False
        then have "f = fm" "st' = st2" using assms unfold wl ml True by (cases fm; simp)+
        then show ?thesis using False sp2 rows2 wr2 en cmd spc
          by (auto intro!: exI [of _ "k1 + k2"] exI [of _ "spawn_of ctx"])
      next
        case fmN: True
        obtain row where row: "summarize_backend w ctx st2 = (Normal, st2\<lparr>result_rows := result_rows st2 @ [row]\<rparr>)"
          "r_name row = x_backend_name ctx" "r_command row = x_command ctx"
          "r_runs row = measured_runs st2" "sm_median_vs_best (r_summary row) = None"
          using summarize_backend_row by blast
        have res: "f = Normal" "st' = st2\<lparr>result_rows := result_rows st2 @ [row]\<rparr>"
          using assms unfold wl ml True fmN row(1) by simp_all
        have "result_rows st' = result_rows st @ [row]" using res(2) rows2 by simp
        moreover have "length (r_runs row) = nat (s_runs S)"
          using row(4) m(4) fmN by (simp add: length_py_range1)
        moreover have "written st' = written st" using res(2) wr2 by simp
        moreover have "spawned st' = spawned st @ replicate (k1 + k2) (spawn_of ctx)"
          using res(2) sp2 by simp
        ultimately show ?thesis using res(1) en cmd spc row(2,3,5) ctx(1,2)
          by (auto intro!: exI [of _ "k1 + k2"] exI [of _ "spawn_of ctx"] exI [of _ row])
      qed
    qed
  qed
qed

subsection \<open>Loops over a split list\<close>

lemma warmup_loop_append:
  "warmup_loop w strict ctx (xs @ ys) st =
     (case warmup_loop w strict ctx xs st of
        (Normal, st1) \<Rightarrow> warmup_loop w strict ctx ys st1
      | (Returned c, st1) \<Rightarrow> (Returned c, st1)
      | (Raised e, st1) \<Rightarrow> (Raised e, st1))"
proof (induction xs arbitrary: st)
  case Nil
  then show ?case by simp
next
  case (Cons i xs)
  show ?case
  proof (cases rule: run_once_cases [of w ctx "length (spawned st)"])
    case 1
    then show ?thesis using Cons.IH
      by (cases strict) (simp_all add: warmup_step_timeout_strict warmup_step_timeout_lenient)
  next
    case (2 e)
    then show ?thesis by (simp add: warmup_step_error)
  next
    case (3 r)
    then show ?thesis using Cons.IH by (simp add: warmup_step_done)
  qed
qed

lemma measure_loop_append:
  "measure_loop w strict ctx (xs @ ys) st =
     (case measure_loop w strict ctx xs st of
        (Normal, st1) \<Rightarrow> measure_loop w strict ctx ys st1
      | (Returned c, st1) \<Rightarrow> (Returned c, st1)
      | (Raised e, st1) \<Rightarrow> (Raised e, st1))"
proof (induction xs arbitrary: st)
  case Nil
  then show ?case by simp
next
  case (Cons i xs)
  show ?case
  proof (cases rule: run_once_cases [of w ctx "length (spawned st)"])
    case 1
    then show ?thesis using Cons.IH
      by (cases strict) (simp_all add: measure_step_timeout_strict measure_step_timeout_lenient)
  next
    case (2 e)
    then show ?thesis by (simp add: measure_step_error)
  next
    case (3 r)
    show ?thesis
    proof (cases "run_ok r")
      case True
      then show ?thesis using 3 Cons.IH by (simp add: measure_step_ok)
    next
      case False
      then show ?thesis using 3 Cons.IH
        by (cases strict) (simp_all add: measure_step_failed_strict measure_step_failed_lenient)
    qed
  qed
qed

lemma run_backends_append:
  "run_backends w S (xs @ ys) st =
     (case run_backends w S xs st of
        (Normal, st1) \<Rightarrow> run_backends w S ys st1
      | (Returned c, st1) \<Rightarrow> (Returned c, st1)
      | (Raised e, st1) \<Rightarrow> (Raised e, st1))"
proof (induction xs arbitrary: st)
  case Nil
  then show ?case by simp
next
  case (Cons b xs)
  obtain f st1 where rb: "run_backend w S b st = (f, st1)" by (cases "run_backend w S b st")
  show ?case using rb Cons.IH by (cases f) simp_all
qed

lemma run_backends_stops:
  assumes "run_backends w S pre st = (Normal, st0)" and "run_backend w S b st0 = (f, st1)"
    and "f \<noteq> Normal"
  shows "run_backends w S (pre @ b # post) st = (f, st1)"
  using assms by (cases f) (simp_all add: run_backends_append)

lemma main_after_setup:
  assumes "main_setup w args cfg = Inr (S, bs)"
  shows "run_backends w S bs initial_state = (Raised e, st) \<Longrightarrow> main w args cfg = (Crashed e, st)"
    and "run_backends w S bs initial_state = (Returned c, st) \<Longrightarrow> main w args cfg = (Exited c, st)"
  using assms by (simp_all add: main_def)

lemma run_backend_warmup_stops:
  assumes "b_enabled b" and "map_of (s_backend_commands S) (b_name b) = Some command"
    and "prepare_backend w S b command = Inr ctx"
    and "warmup_loop w (s_strict S) ctx (py_range1 (s_warmup_runs S)) st = (f, st1)"
    and "f \<noteq> Normal"
  shows "run_backend w S b st = (f, st1)"
  using assms by (cases f) (simp_all add: run_backend_prepared)

lemma run_backend_measure_stops:
  assumes "b_enabled b" and "map_of (s_backend_commands S) (b_name b) = Some command"
    and "prepare_backend w S b command = Inr ctx"
    and "warmup_loop w (s_strict S) ctx (py_range1 (s_warmup_runs S)) st = (Normal, st1)"
    and "measure_loop w (s_strict S) ctx (py_range1 (s_runs S)) (reset_accumulators st1) = (f, st2)"
    and "f \<noteq> Normal"
  shows "run_backend w S b st = (f, st2)"
  using assms by (cases f) (simp_all add: run_backend_prepared)


lemma run_backends_frame:
  assumes "run_backends w S bs st = (f, st')"
  shows "written st' = written st \<and>
     (\<exists>extra. spawned st' = spawned st @ extra \<and>
        (\<forall>sp\<in>set extra. \<exists>b\<in>set bs. b_enabled b \<and>
            map_of (s_backend_commands S) (b_name b) = Some (sp_command sp))) \<and>
     (\<exists>rows. result_rows st' = result_rows st @ rows \<and>
        (\<forall>row\<in>set rows. \<exists>b\<in>set bs. b_enabled b \<and> r_name row = b_name b \<and>
            map_of (s_backend_commands S) (b_name b) = Some (r_command row) \<and>
            sm_median_vs_best (r_summary row) = None) \<and>
        (f = Normal \<longrightarrow>
           map r_name rows =
             map b_name (filter (\<lambda>b. b_enabled b \<and>
                                   map_of (s_backend_commands S) (b_name b) \<noteq> None) bs)))"
  using assms
proof (induction bs arbitrary: st)
  case Nil
  then show ?case by simp
next
  case (Cons b bs)
  let ?cmds = "s_backend_commands S"
  obtain f1 st1 where rb: "run_backend w S b st = (f1, st1)" by (cases "run_backend w S b st")
  from run_backend_frame [OF rb] obtain k sp where
    fr: "written st1 = written st" "spawned st1 = spawned st @ replicate k sp"
      "0 < k \<longrightarrow> b_enabled b \<and> map_of ?cmds (b_name b) = Some (sp_command sp)"
      "f1 \<noteq> Normal \<longrightarrow> result_rows st1 = result_rows st"
      "f1 = Normal \<longrightarrow>
        (if b_enabled b \<and> map_of ?cmds (b_name b) \<noteq> None
         then \<exists>row. result_rows st1 = result_rows st @ [row] \<and> r_name row = b_name b \<and>
                map_of ?cmds (b_name b) = Some (r_command row) \<and>
                length (r_runs row) = nat (s_runs S) \<and>
                sm_median_vs_best (r_summary row) = None
         else result_rows st1 = result_rows st)"
    by blast
  have sp1: "\<forall>x\<in>set (replicate k sp). \<exists>b'\<in>set (b # bs). b_enabled b' \<and>
            map_of ?cmds (b_name b') = Some (sp_command x)"
    using fr(3) by auto
  show ?case
  proof (cases "f1 = Normal")
    case False
    then have "f = f1" "st' = st1" using Cons.prems rb by (cases f1; simp)+
    then show ?thesis using False fr(1,2,4) sp1
      by (intro conjI exI [of _ "replicate k sp"] exI [of _ "[]"]) simp_all
  next
    case True
    then have rest: "run_backends w S bs st1 = (f, st')" using Cons.prems rb by simp
    from Cons.IH [OF rest] obtain extra rows where
      ih: "written st' = written st1" "spawned st' = spawned st1 @ extra"
        "\<forall>x\<in>set extra. \<exists>b\<in>set bs. b_enabled b \<and> map_of ?cmds (b_name b) = Some (sp_command x)"
        "result_rows st' = result_rows st1 @ rows"
        "\<forall>row\<in>set rows. \<exists>b\<in>set bs. b_enabled b \<and> r_name row = b_name b \<and>
            map_of ?cmds (b_name b) = Some (r_command row) \<and>
            sm_median_vs_best (r_summary row) = None"
        "f = Normal \<longrightarrow> map r_name rows =
             map b_name (filter (\<lambda>b. b_enabled b \<and> map_of ?cmds (b_name b) \<noteq> None) bs)"
      by blast
    have spawn: "spawned st' = spawned st @ (replicate k sp @ extra)"
      using ih(2) fr(2) by simp
    have spawn_ok: "\<forall>x\<in>set (replicate k sp @ extra). \<exists>b'\<in>set (b # bs). b_enabled b' \<and>
            map_of ?cmds (b_name b') = Some (sp_command x)"
      using sp1 ih(3) by auto
    show ?thesis
    proof (cases "b_enabled b \<and> map_of ?cmds (b_name b) \<noteq> None")
      case ran: True
      then obtain row where row: "result_rows st1 = result_rows st @ [row]" "r_name row = b_name b"
        "map_of ?cmds (b_name b) = Some (r_command row)"
        "sm_median_vs_best (r_summary row) = None"
        using fr(5) True by auto
      have rows_eq: "result_rows st' = result_rows st @ (row # rows)" using ih(4) row(1) by simp
      have rows_ok: "\<forall>r\<in>set (row # rows). \<exists>b'\<in>set (b # bs). b_enabled b' \<and> r_name r = b_name b' \<and>
            map_of ?cmds (b_name b') = Some (r_command r) \<and>
            sm_median_vs_best (r_summary r) = None"
        using ih(5) row(2,3,4) ran by auto
      have names: "f = Normal \<longrightarrow> map r_name (row # rows) =
             map b_name (filter (\<lambda>b. b_enabled b \<and> map_of ?cmds (b_name b) \<noteq> None) (b # bs))"
        using ih(6) row(2) ran by simp
      show ?thesis using ih(1) fr(1) spawn spawn_ok rows_eq rows_ok names
        by (intro conjI exI [of _ "replicate k sp @ extra"] exI [of _ "row # rows"]) simp_all
    next
      case skip: False
      then have same: "result_rows st1 = result_rows st" using fr(5) True by auto
      have rows_eq: "result_rows st' = result_rows st @ rows" using ih(4) same by simp
      have rows_ok: "\<forall>r\<in>set rows. \<exists>b'\<in>set (b # bs). b_enabled b' \<and> r_name r = b_name b' \<and>
            map_of ?cmds (b_name b') = Some (r_command r) \<and>
            sm_median_vs_best (r_summary r) = None"
        using ih(5) by auto
      have names: "f = Normal \<longrightarrow> map r_name rows =
             map b_name (filter (\<lambda>b. b_enabled b \<and> map_of ?cmds (b_name b) \<noteq> None) (b # bs))"
        using ih(6) skip by auto
      show ?thesis using ih(1) fr(1) spawn spawn_ok rows_eq rows_ok names
        by (intro conjI exI [of _ "replicate k sp @ extra"] exI [of _ rows]) simp_all
    qed
  qed
qed

subsection \<open>Evaluating the concrete inputs\<close>

lemmas setup_eval = main_setup_def from_config_def demo_config_def plain_backend_def no_args_def
  no_warmup_args_def str_lower_def lower_char_def build_template_variables_def
  parse_backend_filters_def strip_def is_space_def backend_is_selected_def format_command_def
  str_format_def lookup_field_def field_arg_name_def is_digit_def scripted_world_def
  str_of_int_def str_of_nat.simps digit_char_def demo_settings_def metric_lower_def Let_def

lemmas backend_eval = prepare_backend_def select_metric_regexes_def parse_get_def
  build_aux_regexes_def demo_settings_def demo_ctx_def plain_backend_def scripted_world_def
  metric_lower_def format_command_def str_format_def lookup_field_def field_arg_name_def
  is_digit_def Let_def

lemmas run_eval = run_once_def spawn_of_def scripted_world_def scripted_run_def demo_ctx_def
  Let_def

subsection \<open>Timeouts\<close>

text \<open>
  C7. Let the run have reached backend \<open>b\<close> (the backends before it completed) and
  let \<open>b\<close> be enabled, with a resolved command and a prepared context.
  When a warmup run times out under strict mode, the TimeoutExpired exception leaves
  \<^verbatim>\<open>main\<close> at once: no run record is appended, no result row is added and nothing is
  written. When a measured run times out under strict mode, the failure is counted,
  the timeout record is appended to the measured runs, and \<^verbatim>\<open>main\<close> returns exit code
  2. Under lenient mode the warmup loop goes on with the remaining iterations, and
  the measured loop goes on with the remaining iterations after recording the
  timeout.
\<close>

theorem timeout_policy:
  assumes su: "main_setup w args cfg = Inr (S, pre @ b # post)"
    and before: "run_backends w S pre initial_state = (Normal, sta)"
    and en: "b_enabled b"
    and cmd: "map_of (s_backend_commands S) (b_name b) = Some command"
    and prep: "prepare_backend w S b command = Inr ctx"
  shows
    "(py_range1 (s_warmup_runs S) = ws @ i # ws' \<and>
      warmup_loop w (s_strict S) ctx ws sta = (Normal, stw) \<and>
      run_once w ctx (length (spawned stw)) = Inl TimeoutExpired \<longrightarrow>
        (s_strict S \<longrightarrow>
           main w args cfg = (Crashed TimeoutExpired, stw\<lparr>spawned := spawned stw @ [spawn_of ctx]\<rparr>) \<and>
           measured_runs (snd (main w args cfg)) = measured_runs sta \<and>
           result_rows (snd (main w args cfg)) = result_rows sta \<and>
           written (snd (main w args cfg)) = None) \<and>
        (\<not> s_strict S \<longrightarrow>
           warmup_loop w (s_strict S) ctx (py_range1 (s_warmup_runs S)) sta =
             warmup_loop w (s_strict S) ctx ws' (stw\<lparr>spawned := spawned stw @ [spawn_of ctx]\<rparr>))) \<and>
     (warmup_loop w (s_strict S) ctx (py_range1 (s_warmup_runs S)) sta = (Normal, stb) \<and>
      py_range1 (s_runs S) = ms @ j # ms' \<and>
      measure_loop w (s_strict S) ctx ms (reset_accumulators stb) = (Normal, stm) \<and>
      run_once w ctx (length (spawned stm)) = Inl TimeoutExpired \<longrightarrow>
        (s_strict S \<longrightarrow>
           main w args cfg =
             (Exited 2, record_timeout ctx j (stm\<lparr>spawned := spawned stm @ [spawn_of ctx]\<rparr>)) \<and>
           measured_runs (snd (main w args cfg)) =
             measured_runs stm @ [timeout_record (s_timeout_s S) j] \<and>
           failed_runs (snd (main w args cfg)) = failed_runs stm + 1 \<and>
           result_rows (snd (main w args cfg)) = result_rows sta \<and>
           written (snd (main w args cfg)) = None) \<and>
        (\<not> s_strict S \<longrightarrow>
           measure_loop w (s_strict S) ctx (py_range1 (s_runs S)) (reset_accumulators stb) =
             measure_loop w (s_strict S) ctx ms'
               (record_timeout ctx j (stm\<lparr>spawned := spawned stm @ [spawn_of ctx]\<rparr>))))"
proof -
  have wr0: "written sta = None"
    using run_backends_frame [OF before] by (simp add: initial_state_def)
  have warm: "(s_strict S \<longrightarrow>
           main w args cfg = (Crashed TimeoutExpired, stw\<lparr>spawned := spawned stw @ [spawn_of ctx]\<rparr>) \<and>
           measured_runs (snd (main w args cfg)) = measured_runs sta \<and>
           result_rows (snd (main w args cfg)) = result_rows sta \<and>
           written (snd (main w args cfg)) = None) \<and>
        (\<not> s_strict S \<longrightarrow>
           warmup_loop w (s_strict S) ctx (py_range1 (s_warmup_runs S)) sta =
             warmup_loop w (s_strict S) ctx ws' (stw\<lparr>spawned := spawned stw @ [spawn_of ctx]\<rparr>))"
    if split: "py_range1 (s_warmup_runs S) = ws @ i # ws'"
      and reach: "warmup_loop w (s_strict S) ctx ws sta = (Normal, stw)"
      and tmo: "run_once w ctx (length (spawned stw)) = Inl TimeoutExpired"
  proof (cases "s_strict S")
    case True
    let ?st = "stw\<lparr>spawned := spawned stw @ [spawn_of ctx]\<rparr>"
    have "warmup_loop w (s_strict S) ctx (py_range1 (s_warmup_runs S)) sta = (Raised TimeoutExpired, ?st)"
      using True reach tmo by (simp add: split warmup_loop_append warmup_step_timeout_strict)
    then have "run_backend w S b sta = (Raised TimeoutExpired, ?st)"
      by (intro run_backend_warmup_stops [OF en cmd prep]) simp_all
    then have "run_backends w S (pre @ b # post) initial_state = (Raised TimeoutExpired, ?st)"
      by (intro run_backends_stops [OF before]) simp_all
    then have m: "main w args cfg = (Crashed TimeoutExpired, ?st)"
      by (rule main_after_setup(1) [OF su])
    from warmup_loop_frame [OF reach] obtain k where
      "stw = sta\<lparr>spawned := spawned sta @ replicate k (spawn_of ctx)\<rparr>" by blast
    then have "measured_runs ?st = measured_runs sta" "result_rows ?st = result_rows sta"
      "written ?st = None" using wr0 by simp_all
    with m True show ?thesis by simp
  next
    case False
    then show ?thesis using reach tmo
      by (simp add: split warmup_loop_append warmup_step_timeout_lenient)
  qed
  have meas: "(s_strict S \<longrightarrow>
           main w args cfg =
             (Exited 2, record_timeout ctx j (stm\<lparr>spawned := spawned stm @ [spawn_of ctx]\<rparr>)) \<and>
           measured_runs (snd (main w args cfg)) =
             measured_runs stm @ [timeout_record (s_timeout_s S) j] \<and>
           failed_runs (snd (main w args cfg)) = failed_runs stm + 1 \<and>
           result_rows (snd (main w args cfg)) = result_rows sta \<and>
           written (snd (main w args cfg)) = None) \<and>
        (\<not> s_strict S \<longrightarrow>
           measure_loop w (s_strict S) ctx (py_range1 (s_runs S)) (reset_accumulators stb) =
             measure_loop w (s_strict S) ctx ms'
               (record_timeout ctx j (stm\<lparr>spawned := spawned stm @ [spawn_of ctx]\<rparr>)))"
    if wl: "warmup_loop w (s_strict S) ctx (py_range1 (s_warmup_runs S)) sta = (Normal, stb)"
      and split: "py_range1 (s_runs S) = ms @ j # ms'"
      and reach: "measure_loop w (s_strict S) ctx ms (reset_accumulators stb) = (Normal, stm)"
      and tmo: "run_once w ctx (length (spawned stm)) = Inl TimeoutExpired"
  proof (cases "s_strict S")
    case True
    let ?st = "record_timeout ctx j (stm\<lparr>spawned := spawned stm @ [spawn_of ctx]\<rparr>)"
    have "measure_loop w (s_strict S) ctx (py_range1 (s_runs S)) (reset_accumulators stb) = (Returned 2, ?st)"
      using True reach tmo by (simp add: split measure_loop_append measure_step_timeout_strict)
    then have "run_backend w S b sta = (Returned 2, ?st)"
      by (intro run_backend_measure_stops [OF en cmd prep wl]) simp_all
    then have "run_backends w S (pre @ b # post) initial_state = (Returned 2, ?st)"
      by (intro run_backends_stops [OF before]) simp_all
    then have m: "main w args cfg = (Exited 2, ?st)"
      by (rule main_after_setup(2) [OF su])
    from warmup_loop_frame [OF wl] obtain k where
      k: "stb = sta\<lparr>spawned := spawned sta @ replicate k (spawn_of ctx)\<rparr>" by blast
    from measure_loop_frame [OF reach] have
      "result_rows stm = result_rows stb" "written stm = written stb" by simp_all
    then have "result_rows ?st = result_rows sta" "written ?st = None"
      using k wr0 by simp_all
    moreover have "measured_runs ?st = measured_runs stm @ [timeout_record (s_timeout_s S) j]"
      "failed_runs ?st = failed_runs stm + 1"
      using prepare_backend_ctx(3) [OF prep] by simp_all
    ultimately show ?thesis using m True by simp
  next
    case False
    then show ?thesis using reach tmo
      by (simp add: split measure_loop_append measure_step_timeout_lenient)
  qed
  from warm meas show ?thesis by blast
qed


theorem timeout_policy_witness:
  "main scripted_world no_args (Some (demo_config True [plain_backend ''b1'' ''hang''])) =
     (Crashed TimeoutExpired, initial_state\<lparr>spawned := [demo_spawn ''hang'']\<rparr>) \<and>
   main scripted_world no_warmup_args (Some (demo_config True [plain_backend ''b1'' ''hang''])) =
     (Exited 2,
      initial_state\<lparr>spawned := [demo_spawn ''hang''], failed_runs := 1,
                     measured_runs := [Run_timeout 1 ''timeout after 5s'']\<rparr>)"
proof -
  let ?b = "plain_backend ''b1'' ''hang''"
  let ?ctx = "demo_ctx ''b1'' ''hang''"
  have en: "b_enabled ?b" by (simp add: plain_backend_def)
  have tmo: "run_once scripted_world ?ctx (length (spawned st)) = Inl TimeoutExpired" for st
    by (simp add: run_eval)
  have sp: "spawn_of ?ctx = demo_spawn ''hang''"
    by (simp add: spawn_of_def demo_ctx_def demo_spawn_def)
  have first: "main scripted_world no_args (Some (demo_config True [?b])) =
     (Crashed TimeoutExpired, initial_state\<lparr>spawned := [demo_spawn ''hang'']\<rparr>)"
  proof -
    let ?S = "demo_settings True 1 [(''b1'', ''hang'')]"
    have su: "main_setup scripted_world no_args (Some (demo_config True [?b])) = Inr (?S, [] @ ?b # [])"
      by (simp add: setup_eval)
    have before: "run_backends scripted_world ?S [] initial_state = (Normal, initial_state)" by simp
    have cmd: "map_of (s_backend_commands ?S) (b_name ?b) = Some ''hang''"
      by (simp add: demo_settings_def plain_backend_def)
    have prep: "prepare_backend scripted_world ?S ?b ''hang'' = Inr ?ctx"
      by (simp add: backend_eval)
    have rng: "py_range1 (s_warmup_runs ?S) = [] @ 1 # []"
      by (simp add: demo_settings_def py_range1_rec)
    have reach: "warmup_loop scripted_world (s_strict ?S) ?ctx [] initial_state = (Normal, initial_state)"
      by simp
    have strict: "s_strict ?S" by (simp add: demo_settings_def)
    from timeout_policy [OF su before en cmd prep, where ws = "[]" and i = 1 and ws' = "[]"
        and stw = initial_state, THEN conjunct1, rule_format, THEN conjunct1, rule_format, THEN conjunct1]
      rng reach tmo [of initial_state] strict
    show ?thesis by (simp add: sp initial_state_def)
  qed
  have second: "main scripted_world no_warmup_args (Some (demo_config True [?b])) =
     (Exited 2,
      initial_state\<lparr>spawned := [demo_spawn ''hang''], failed_runs := 1,
                     measured_runs := [Run_timeout 1 ''timeout after 5s'']\<rparr>)"
  proof -
    let ?S = "demo_settings True 0 [(''b1'', ''hang'')]"
    have su: "main_setup scripted_world no_warmup_args (Some (demo_config True [?b])) =
                Inr (?S, [] @ ?b # [])"
      by (simp add: setup_eval)
    have before: "run_backends scripted_world ?S [] initial_state = (Normal, initial_state)" by simp
    have cmd: "map_of (s_backend_commands ?S) (b_name ?b) = Some ''hang''"
      by (simp add: demo_settings_def plain_backend_def)
    have prep: "prepare_backend scripted_world ?S ?b ''hang'' = Inr ?ctx"
      by (simp add: backend_eval)
    have wl: "warmup_loop scripted_world (s_strict ?S) ?ctx (py_range1 (s_warmup_runs ?S)) initial_state =
                (Normal, initial_state)"
      by (simp add: demo_settings_def py_range1_def)
    have rng: "py_range1 (s_runs ?S) = [] @ 1 # [2]"
      by (simp add: demo_settings_def py_range1_rec)
    have reach: "measure_loop scripted_world (s_strict ?S) ?ctx [] (reset_accumulators initial_state) =
                   (Normal, reset_accumulators initial_state)"
      by simp
    have strict: "s_strict ?S" by (simp add: demo_settings_def)
    from timeout_policy [OF su before en cmd prep, where ms = "[]" and j = 1 and ms' = "[2]"
        and stb = initial_state and stm = "reset_accumulators initial_state",
        THEN conjunct2, rule_format, THEN conjunct1, rule_format, THEN conjunct1]
      wl rng reach tmo [of "reset_accumulators initial_state"] strict
    show ?thesis
      by (simp add: spawn_of_def demo_spawn_def initial_state_def reset_accumulators_def
            record_timeout_def timeout_record_def demo_ctx_def str_of_int_def str_of_nat.simps
            digit_char_def)
  qed
  from first second show ?thesis by blast
qed

end
